theory Spec2Isabelle
  imports Complex_Main "HOL-Library.AList"
begin

section \<open>Source Client: \<open>fetchHourData\<close> (windborne.service.ts)\<close>

text \<open>
  A JavaScript number is a finite double (idealised as a real), \<open>NaN\<close> or an infinity.
  Comparisons with \<open>NaN\<close> are false.
\<close>

datatype jsnum = Num real | NaN | PosInf | NegInf

fun js_le :: "jsnum \<Rightarrow> jsnum \<Rightarrow> bool" where
  "js_le (Num a) (Num b) = (a \<le> b)"
| "js_le NaN _ = False"
| "js_le _ NaN = False"
| "js_le NegInf _ = True"
| "js_le _ PosInf = True"
| "js_le PosInf _ = False"
| "js_le _ NegInf = False"

fun js_lt :: "jsnum \<Rightarrow> jsnum \<Rightarrow> bool" where
  "js_lt (Num a) (Num b) = (a < b)"
| "js_lt NaN _ = False"
| "js_lt _ NaN = False"
| "js_lt PosInf _ = False"
| "js_lt _ NegInf = False"
| "js_lt NegInf _ = True"
| "js_lt _ PosInf = True"

text \<open>The value of \<open>response.data\<close>: parsed JSON, or the raw text when parsing failed.\<close>

datatype json =
    JNull
  | JBool bool
  | JNum jsnum
  | JStr string
  | JArr "json list"
  | JObj "(string \<times> json) list"

text \<open>What the upstream request can come to: no response at all, or a status and a body.\<close>

datatype upstream = NetworkError | HttpResponse int json

datatype js_error = AxiosError | TypeError

text \<open>\<open>axios.get\<close> with \<open>validateStatus: status >= 200 && status < 300\<close>.\<close>

fun axiosGet :: "upstream \<Rightarrow> js_error + json" where
  "axiosGet NetworkError = Inl AxiosError"
| "axiosGet (HttpResponse status body) =
     (if status \<ge> 200 \<and> status < 300 then Inr body else Inl AxiosError)"

text \<open>The callback of \<open>response.data.filter\<close>.\<close>

fun validEntry :: "json \<Rightarrow> bool" where
  "validEntry (JArr [JNum lat, JNum lon, JNum alt]) =
     (js_le (Num (- 90)) lat \<and> js_le lat (Num 90) \<and>
      js_le (Num (- 180)) lon \<and> js_le lon (Num 180) \<and>
      js_lt (Num 0) alt \<and> js_lt alt (Num 50))"
| "validEntry _ = False"

text \<open>
  The \<open>try\<close> block: the log line reads \<open>response.data.length\<close>, which throws a
  TypeError on \<open>null\<close>; a body that is not an array gives the empty list.
\<close>

fun fetchHourData_try :: "upstream \<Rightarrow> js_error + json list" where
  "fetchHourData_try up =
     (case axiosGet up of
        Inl e \<Rightarrow> Inl e
      | Inr JNull \<Rightarrow> Inl TypeError
      | Inr (JArr entries) \<Rightarrow> Inr (filter validEntry entries)
      | Inr _ \<Rightarrow> Inr [])"

text \<open>The \<open>catch\<close> block logs and returns the empty list.\<close>

definition fetchHourData :: "upstream \<Rightarrow> json list" where
  "fetchHourData up = (case fetchHourData_try up of Inl e \<Rightarrow> [] | Inr validData \<Rightarrow> validData)"

text \<open>
  The record invariant in the words of the specification: exactly three finite numbers,
  latitude in [-90, 90], longitude in [-180, 180], altitude strictly between 0 and 50.
\<close>

fun spec_valid :: "json \<Rightarrow> bool" where
  "spec_valid (JArr [JNum (Num lat), JNum (Num lon), JNum (Num alt)]) =
     (- 90 \<le> lat \<and> lat \<le> 90 \<and> - 180 \<le> lon \<and> lon \<le> 180 \<and> 0 < alt \<and> alt < 50)"
| "spec_valid _ = False"

fun spec_fetch_hour :: "upstream \<Rightarrow> json list" where
  "spec_fetch_hour (HttpResponse status (JArr entries)) =
     (if 200 \<le> status \<and> status \<le> 299 then filter spec_valid entries else [])"
| "spec_fetch_hour _ = []"

section \<open>Data model (types/balloon, database tables)\<close>

datatype status = Active | New | Lost

text \<open>
  \<open>BalloonDataPoint\<close>. Numbers are doubles in the source and reals here; a timestamp is
  the ISO string of an instant and is modelled by its milliseconds since the epoch. The
  optional fields \<open>speed_kmh\<close> and \<open>direction_deg\<close> are \<open>undefined\<close> or \<open>null\<close> when
  \<open>None\<close>.
\<close>

record BalloonDataPoint =
  id_b :: string
  latitude :: real
  longitude :: real
  altitude_km :: real
  timestamp :: int
  hour_offset :: int
  speed_kmh :: "real option"
  direction_deg :: "real option"
  confidence :: real
  status :: status

text \<open>A row of \<open>tracked_balloons\<close>, stored under the primary key \<open>(id, timestamp)\<close>.\<close>

record tracked_row =
  row_lat :: real
  row_lon :: real
  row_alt :: real
  row_speed_kmh :: "real option"
  row_direction_deg :: "real option"
  row_status :: status
  row_hour_offset :: int

text \<open>
  The database: \<open>balloon_snapshots\<close> keyed by timestamp and \<open>tracked_balloons\<close> keyed by
  \<open>(id, timestamp)\<close>, both as association lists so that a query can list the rows.
\<close>

record store =
  balloon_snapshots :: "(int \<times> json list) list"
  tracked_balloons :: "((string \<times> int) \<times> tracked_row) list"

definition saveBalloonSnapshot :: "int \<Rightarrow> json list \<Rightarrow> store \<Rightarrow> store" where
  "saveBalloonSnapshot ts rawData db =
     db\<lparr>balloon_snapshots := AList.update ts rawData (balloon_snapshots db)\<rparr>"

definition rowOfBalloon :: "BalloonDataPoint \<Rightarrow> (string \<times> int) \<times> tracked_row" where
  "rowOfBalloon b =
     ((id_b b, timestamp b),
      \<lparr>row_lat = latitude b, row_lon = longitude b, row_alt = altitude_km b,
       row_speed_kmh = speed_kmh b, row_direction_deg = direction_deg b,
       row_status = status b, row_hour_offset = hour_offset b\<rparr>)"

text \<open>\<open>INSERT ... ON CONFLICT (id, timestamp) DO UPDATE\<close>, one balloon after the other.\<close>

definition saveTrackedBalloons :: "BalloonDataPoint list \<Rightarrow> store \<Rightarrow> store" where
  "saveTrackedBalloons balloons db =
     db\<lparr>tracked_balloons :=
          fold (\<lambda>b rows. AList.update (fst (rowOfBalloon b)) (snd (rowOfBalloon b)) rows)
            balloons (tracked_balloons db)\<rparr>"

definition mapRowToBalloon :: "(string \<times> int) \<times> tracked_row \<Rightarrow> BalloonDataPoint" where
  "mapRowToBalloon r =
     \<lparr>id_b = fst (fst r), latitude = row_lat (snd r), longitude = row_lon (snd r),
      altitude_km = row_alt (snd r), timestamp = snd (fst r),
      hour_offset = row_hour_offset (snd r), speed_kmh = row_speed_kmh (snd r),
      direction_deg = row_direction_deg (snd r), confidence = 1, status = row_status (snd r)\<rparr>"

definition getTrackedBalloonsAtTimestamp :: "int \<Rightarrow> store \<Rightarrow> BalloonDataPoint list" where
  "getTrackedBalloonsAtTimestamp ts db =
     map mapRowToBalloon (filter (\<lambda>r. snd (fst r) = ts) (tracked_balloons db))"

definition getLatestSnapshotTimestamp :: "store \<Rightarrow> int option" where
  "getLatestSnapshotTimestamp db =
     (if balloon_snapshots db = [] then None
      else Some (Max (set (map fst (balloon_snapshots db)))))"

definition hourMs :: int where
  "hourMs = 1000 * 60 * 60"

text \<open>
  The time zone of the host, as the two offsets in milliseconds that the local-time
  methods of \<open>Date\<close> work with: the offset in force at an instant, and the offset with
  which a local time is read back as an instant.
\<close>

record time_zone =
  tz_ofInstant :: "int \<Rightarrow> int"
  tz_ofLocal :: "int \<Rightarrow> int"

text \<open>
  \<open>cleanupStaleData\<close>. The cutoff is \<open>new Date()\<close> after
  \<open>setHours(getHours() - 24)\<close>: the clock is read as a local time, 24 hours are taken
  from it, and the result is read back as an instant. Both tables lose the rows with
  \<open>timestamp < cutoff\<close>. The comparison of two ISO strings of the same format is the
  comparison of their instants.
\<close>

definition cleanupStaleData :: "time_zone \<Rightarrow> int \<Rightarrow> store \<Rightarrow> store" where
  "cleanupStaleData tz now db =
     (let localTime = now + tz_ofInstant tz now;
          localCutoff = localTime - 24 * hourMs;
          cutoffTimestamp = localCutoff - tz_ofLocal tz localCutoff
      in db\<lparr>tracked_balloons :=
               filter (\<lambda>r. \<not> snd (fst r) < cutoffTimestamp) (tracked_balloons db),
             balloon_snapshots :=
               filter (\<lambda>r. \<not> fst r < cutoffTimestamp) (balloon_snapshots db)\<rparr>)"

definition clearAllData :: "store \<Rightarrow> store" where
  "clearAllData db = db\<lparr>tracked_balloons := [], balloon_snapshots := []\<rparr>"

section \<open>Balloon ids\<close>

definition digit_char :: "nat \<Rightarrow> char" where
  "digit_char d = ''0123456789'' ! d"

text \<open>The decimal digits of a natural number.\<close>

fun decimal :: "nat \<Rightarrow> string" where
  "decimal n = (if n < 10 then [digit_char n] else decimal (n div 10) @ [digit_char (n mod 10)])"

declare decimal.simps [simp del]

text \<open>
  The id counter is a JavaScript number that holds an integer, and is modelled by that
  integer. \<open>String(n)\<close> writes a minus sign for a negative number and then the digits.
  Up to a magnitude of \<open>2 ^ 54\<close> these are the digits of the integer, as written here;
  for larger doubles \<open>String\<close> writes the shortest digits that read back as the same
  double, which this function does not follow. In no statement below does the counter pass
  \<open>2 ^ 53\<close>.
\<close>

definition numberToString :: "int \<Rightarrow> string" where
  "numberToString n = (if n < 0 then CHR ''-'' # decimal (nat (- n)) else decimal (nat n))"

definition padStart :: "nat \<Rightarrow> char \<Rightarrow> string \<Rightarrow> string" where
  "padStart targetLength c s = replicate (targetLength - length s) c @ s"

text \<open>The template \<open>balloon_${String(nextId).padStart(4, '0')}\<close>.\<close>

definition balloonId :: "int \<Rightarrow> string" where
  "balloonId n = ''balloon_'' @ padStart 4 (CHR ''0'') (numberToString n)"

text \<open>
  \<open>n++\<close> on such a number. A double holds every integer of magnitude up to \<open>2 ^ 53\<close>;
  from there to \<open>2 ^ 54\<close> it holds the even ones only, and \<open>n + 1\<close> lies half way
  between two doubles: it is rounded to the one whose half is even. Beyond \<open>2 ^ 54\<close> the
  sum is rounded back to \<open>n\<close>.
\<close>

definition jsIncrement :: "int \<Rightarrow> int" where
  "jsIncrement n =
     (if - (2 ^ 53) \<le> n \<and> n < 2 ^ 53 then n + 1
      else if \<bar>n\<bar> < 2 ^ 54 \<and> odd (n div 2) then n + 2
      else n)"

text \<open>The number of binary digits of a natural number.\<close>

fun bitLength :: "nat \<Rightarrow> nat" where
  "bitLength n = (if n = 0 then 0 else Suc (bitLength (n div 2)))"

declare bitLength.simps [simp del]

text \<open>
  A 64-bit integer of the database read as a JavaScript number: the nearest double, which
  keeps 53 binary digits; of two nearest doubles the one with the even last digit.
\<close>

definition toDouble :: "int \<Rightarrow> int" where
  "toDouble n =
     (if \<bar>n\<bar> < 2 ^ 53 then n
      else
        let m = nat \<bar>n\<bar>;
            u = 2 ^ (bitLength m - 53);
            q = m div u;
            r = m mod u;
            rounded = (if 2 * r < u \<or> (2 * r = u \<and> even q) then q else q + 1)
        in sgn n * int (rounded * u))"

definition digit_value :: "char \<Rightarrow> nat option" where
  "digit_value c = map_of (zip ''0123456789'' [0, 1, 2, 3, 4, 5, 6, 7, 8, 9]) c"

text \<open>The value of the longest prefix of digits, read from an accumulator.\<close>

fun parseDigits :: "nat \<Rightarrow> string \<Rightarrow> nat" where
  "parseDigits acc [] = acc"
| "parseDigits acc (c # cs) =
     (case digit_value c of None \<Rightarrow> acc | Some d \<Rightarrow> parseDigits (10 * acc + d) cs)"

text \<open>
  \<open>CAST(text AS INTEGER)\<close> of SQLite: white space at the start is skipped, a sign may
  follow, then the longest prefix of digits is read (0 when there is none), and the value is
  kept within the 64-bit integers.
\<close>

definition sqlSpace :: "char \<Rightarrow> bool" where
  "sqlSpace c = (c \<in> set [CHR '' '', CHR 0x09, CHR 0x0A, CHR 0x0B, CHR 0x0C, CHR 0x0D])"

definition castInteger :: "string \<Rightarrow> int" where
  "castInteger s =
     (let t = dropWhile sqlSpace s;
          negative = (t \<noteq> [] \<and> hd t = CHR ''-'');
          digits = (if t \<noteq> [] \<and> (hd t = CHR ''-'' \<or> hd t = CHR ''+'') then tl t else t);
          v = int (parseDigits 0 digits)
      in if negative then max (- (2 ^ 63)) (- v) else min (2 ^ 63 - 1) v)"

text \<open>
  \<open>id LIKE 'balloon_%'\<close> of SQLite: the letters match in either case, \<open>_\<close> stands
  for any one character and \<open>%\<close> for any rest.
\<close>

definition asciiLower :: "char \<Rightarrow> char" where
  "asciiLower c =
     (case map_of (zip ''ABCDEFGHIJKLMNOPQRSTUVWXYZ'' ''abcdefghijklmnopqrstuvwxyz'') c of
        None \<Rightarrow> c
      | Some l \<Rightarrow> l)"

definition likeBalloon :: "string \<Rightarrow> bool" where
  "likeBalloon s = (map asciiLower (take 7 s) = ''balloon'' \<and> length s \<ge> 8)"

text \<open>
  \<open>getMaxBalloonId\<close> of the SQLite service:
  \<open>SELECT MAX(CAST(substr(id, 9) AS INTEGER)) ... WHERE id LIKE 'balloon_%'\<close>, then
  \<open>row.maxId ? row.maxId : 0\<close>. Without a matching row the maximum is \<open>NULL\<close>.
\<close>

definition getMaxBalloonId :: "store \<Rightarrow> int" where
  "getMaxBalloonId db =
     (case map (\<lambda>r. castInteger (drop 8 (fst (fst r))))
             (filter (\<lambda>r. likeBalloon (fst (fst r))) (tracked_balloons db)) of
        [] \<Rightarrow> 0
      | v # vs \<Rightarrow> (let maxId = toDouble (fold max vs v) in if maxId \<noteq> 0 then maxId else 0))"

section \<open>Tracker geometry (BalloonTracker)\<close>

definition MAX_DISTANCE_KM_PER_HOUR :: real where
  "MAX_DISTANCE_KM_PER_HOUR = 600"

definition TYPICAL_DISTANCE_KM_PER_HOUR :: real where
  "TYPICAL_DISTANCE_KM_PER_HOUR = 150"

definition MAX_ALTITUDE_DELTA_KM :: real where
  "MAX_ALTITUDE_DELTA_KM = 10"

definition MAX_DIRECTION_CHANGE_DEG :: real where
  "MAX_DIRECTION_CHANGE_DEG = 45"

definition EARTH_RADIUS_KM :: real where
  "EARTH_RADIUS_KM = 6371"

text \<open>\<open>Math.atan2(y, x)\<close> on reals (signed zeros are not distinguished).\<close>

definition atan2 :: "real \<Rightarrow> real \<Rightarrow> real" where
  "atan2 y x =
     (if x > 0 then arctan (y / x)
      else if x < 0 then (if y \<ge> 0 then arctan (y / x) + pi else arctan (y / x) - pi)
      else if y > 0 then pi / 2
      else if y < 0 then - (pi / 2)
      else 0)"

text \<open>The remainder operator \<open>%\<close>: the quotient is truncated towards zero.\<close>

definition js_mod :: "real \<Rightarrow> real \<Rightarrow> real" where
  "js_mod x m = x - m * of_int (if x / m \<ge> 0 then \<lfloor>x / m\<rfloor> else \<lceil>x / m\<rceil>)"

definition toRadians :: "real \<Rightarrow> real" where
  "toRadians degrees = degrees * (pi / 180)"

definition toDegrees :: "real \<Rightarrow> real" where
  "toDegrees radians = radians * (180 / pi)"

text \<open>Haversine distance.\<close>

definition calculateDistance :: "real \<Rightarrow> real \<Rightarrow> real \<Rightarrow> real \<Rightarrow> real" where
  "calculateDistance lat1 lon1 lat2 lon2 =
     (let dLat = toRadians (lat2 - lat1);
          dLon = toRadians (lon2 - lon1);
          a = sin (dLat / 2) * sin (dLat / 2) +
              cos (toRadians lat1) * cos (toRadians lat2) * sin (dLon / 2) * sin (dLon / 2);
          c = 2 * atan2 (sqrt a) (sqrt (1 - a))
      in EARTH_RADIUS_KM * c)"

definition angleDifference :: "real \<Rightarrow> real \<Rightarrow> real" where
  "angleDifference angle1 angle2 =
     (let diff = js_mod \<bar>angle1 - angle2\<bar> 360
      in if diff > 180 then 360 - diff else diff)"

text \<open>Speed and bearing of the segment from \<open>prev\<close> to \<open>cur\<close>, as a pair.\<close>

definition calculateVelocity :: "BalloonDataPoint \<Rightarrow> BalloonDataPoint \<Rightarrow> real \<times> real" where
  "calculateVelocity prev cur =
     (let distance = calculateDistance (latitude prev) (longitude prev) (latitude cur) (longitude cur);
          timeDiffHours = real_of_int (timestamp cur - timestamp prev) / (1000 * 60 * 60);
          speed = (if timeDiffHours > 0 then distance / timeDiffHours else 0);
          dLon = toRadians (longitude cur - longitude prev);
          lat1 = toRadians (latitude prev);
          lat2 = toRadians (latitude cur);
          y = sin dLon * cos lat2;
          x = cos lat1 * sin lat2 - sin lat1 * cos lat2 * cos dLon;
          direction = js_mod (atan2 y x * 180 / pi + 360) 360
      in (speed, direction))"

text \<open>
  Weighted average over the segments of a history sorted by time (a stable sort): the
  segment ending at position \<open>i\<close> has weight \<open>i\<close>; the heading is a circular mean.
\<close>

definition calculateAveragedVelocity :: "BalloonDataPoint list \<Rightarrow> (real \<times> real) option" where
  "calculateAveragedVelocity history =
     (if length history < 2 then None
      else
        let sorted = sort_key timestamp history;
            velocities =
              map (\<lambda>i. (calculateVelocity (sorted ! (i - 1)) (sorted ! i), real i))
                [1..<length sorted]
        in if velocities = [] then None
           else
             let weightedSpeed = sum_list (map (\<lambda>(v, w). fst v * w) velocities);
                 weightedX = sum_list (map (\<lambda>(v, w). cos (snd v * (pi / 180)) * w) velocities);
                 weightedY = sum_list (map (\<lambda>(v, w). sin (snd v * (pi / 180)) * w) velocities);
                 totalWeight = sum_list (map snd velocities);
                 avgSpeed = weightedSpeed / totalWeight;
                 avgDirection = js_mod (atan2 weightedY weightedX * (180 / pi) + 360) 360
             in Some (avgSpeed, avgDirection))"

text \<open>A number is truthy when it is defined and not zero.\<close>

definition truthy :: "real option \<Rightarrow> bool" where
  "truthy v = (case v of None \<Rightarrow> False | Some r \<Rightarrow> r \<noteq> 0)"

text \<open>
  The velocity the matcher works with: the average over the last three history positions
  when the history has two or more, else the stored velocity of \<open>prev\<close> when both its
  fields are truthy, else none.
\<close>

definition matchVelocity :: "BalloonDataPoint \<Rightarrow> BalloonDataPoint list \<Rightarrow> (real \<times> real) option" where
  "matchVelocity prev history =
     (let avgVelocity =
            (if length history \<ge> 2
             then calculateAveragedVelocity (drop (length history - 3) history)
             else None)
      in case avgVelocity of
           Some v \<Rightarrow> Some v
         | None \<Rightarrow>
             (if truthy (speed_kmh prev) \<and> truthy (direction_deg prev)
              then Some (the (speed_kmh prev), the (direction_deg prev))
              else None))"

text \<open>
  \<open>calculateMatchScore\<close>; \<open>None\<close> is the result \<open>Infinity\<close> of a hard gate. The logarithm
  of a speed ratio 0 is minus infinity in the source, which the \<open>min\<close> turns into 1.
\<close>

definition calculateMatchScore ::
  "BalloonDataPoint \<Rightarrow> BalloonDataPoint \<Rightarrow> BalloonDataPoint list \<Rightarrow> real option" where
  "calculateMatchScore cur prev history =
     (let distance = calculateDistance (latitude cur) (longitude cur) (latitude prev) (longitude prev);
          altitudeDelta = \<bar>altitude_km cur - altitude_km prev\<bar>;
          velocity = matchVelocity prev history;
          hasPrediction = (case velocity of None \<Rightarrow> False | Some v \<Rightarrow> fst v > 0);
          vSpeed = (case velocity of None \<Rightarrow> 0 | Some v \<Rightarrow> fst v);
          vDirection = (case velocity of None \<Rightarrow> 0 | Some v \<Rightarrow> snd v);
          rad = vDirection * (pi / 180);
          latRad = latitude prev * (pi / 180);
          dLat = (vSpeed * cos rad) / EARTH_RADIUS_KM;
          dLon = (vSpeed * sin rad) / (EARTH_RADIUS_KM * cos latRad);
          predictedLat = (if hasPrediction then latitude prev + dLat * (180 / pi) else latitude prev);
          predictedLon = (if hasPrediction then longitude prev + dLon * (180 / pi) else longitude prev);
          predictedDist = calculateDistance (latitude cur) (longitude cur) predictedLat predictedLon;
          impliedVelocity = calculateVelocity prev cur;
          gated = (hasPrediction \<and> vSpeed > 10);
          directionChange = (if gated then angleDifference vDirection (snd impliedVelocity) else 0);
          effectiveDist = (if hasPrediction then predictedDist else distance);
          distanceScore = min 1 ((effectiveDist / TYPICAL_DISTANCE_KM_PER_HOUR) ^ 2);
          directionScore = (if gated then (directionChange / MAX_DIRECTION_CHANGE_DEG) ^ 3 else 0);
          speedRatio = fst impliedVelocity / vSpeed;
          speedScore =
            (if gated
             then (if speedRatio \<le> 0 then 1 else min 1 (\<bar>ln speedRatio\<bar> / ln 4))
             else 0);
          altitudeScore = (altitudeDelta / MAX_ALTITUDE_DELTA_KM) ^ 2;
          normalizedCost = 0.15 * distanceScore + 0.55 * directionScore +
                           0.10 * speedScore + 0.20 * altitudeScore
      in if distance > MAX_DISTANCE_KM_PER_HOUR then None
         else if altitudeDelta > MAX_ALTITUDE_DELTA_KM then None
         else if gated \<and> directionChange > MAX_DIRECTION_CHANGE_DEG then None
         else Some (normalizedCost * 100))"

section \<open>Tracker: \<open>trackBalloons\<close>\<close>

definition MAX_ACCEPTABLE_COST :: real where
  "MAX_ACCEPTABLE_COST = 70"

definition GREEDY_COST_THRESHOLD :: real where
  "GREEDY_COST_THRESHOLD = 30"

definition GREEDY_ALTITUDE_THRESHOLD :: real where
  "GREEDY_ALTITUDE_THRESHOLD = 5"

definition INFINITY_COST :: real where
  "INFINITY_COST = 1000000000"

definition searchRadius :: real where
  "searchRadius = (MAX_DISTANCE_KM_PER_HOUR * 1.5) / 111"

record CandidateMatch =
  cm_prevIdx :: nat
  cm_prev :: BalloonDataPoint
  cm_cost :: real

text \<open>
  The state of the process: the database, the time zone of the host, the tracker's id
  counter and caches, and the fields of the ingest service.
\<close>

record world =
  w_db :: store
  w_timeZone :: time_zone
  w_nextId :: int
  w_processedDataCache :: "(string \<times> BalloonDataPoint list) list"
  w_cacheTimestamp :: "int option"
  w_cacheCreatedAt :: int
  w_balloonHistory :: "BalloonDataPoint list"
  w_lastUpdateTimestamp :: "int option"
  w_autoUpdateEnabled :: bool

text \<open>The sets and lists that \<open>trackBalloons\<close> fills while it matches.\<close>

record match_state =
  ms_tracked :: "BalloonDataPoint list"
  ms_matchedPrevIds :: "string set"
  ms_matchedCurrIndices :: "nat set"
  ms_conflictingCurrIndices :: "nat list"

type_synonym history_map = "string \<Rightarrow> BalloonDataPoint list option"

text \<open>
  \<open>tree.search\<close> of the rbush index over the points of \<open>previousData\<close>: the points inside
  the box, borders included, listed in the order of \<open>previousData\<close>.
\<close>

definition treeSearch ::
  "real \<Rightarrow> real \<Rightarrow> real \<Rightarrow> real \<Rightarrow> BalloonDataPoint list \<Rightarrow> BalloonDataPoint list" where
  "treeSearch minX minY maxX maxY previousData =
     filter (\<lambda>b. minX \<le> longitude b \<and> longitude b \<le> maxX \<and>
                 minY \<le> latitude b \<and> latitude b \<le> maxY) previousData"

text \<open>\<open>prevIndexMap\<close>: a later balloon with the same id overwrites the index of an earlier one.\<close>

definition prevIndexMap :: "BalloonDataPoint list \<Rightarrow> string \<Rightarrow> nat option" where
  "prevIndexMap previousData =
     map_of (rev (zip (map id_b previousData) [0..<length previousData]))"

definition initialize :: "world \<Rightarrow> world" where
  "initialize w = w\<lparr>w_nextId := jsIncrement (getMaxBalloonId (w_db w))\<rparr>"

definition resetState :: "world \<Rightarrow> world" where
  "resetState w =
     w\<lparr>w_nextId := 1, w_processedDataCache := [], w_cacheTimestamp := None,
       w_cacheCreatedAt := 0\<rparr>"

definition addMatch ::
  "BalloonDataPoint \<Rightarrow> BalloonDataPoint \<Rightarrow> real \<Rightarrow> nat \<Rightarrow> match_state \<Rightarrow> match_state" where
  "addMatch cur prev cost currIdx ms =
     (let velocity = calculateVelocity prev cur;
          normalizedCost = cost / 100;
          conf = max 0.3 (exp (- normalizedCost * 2))
      in ms\<lparr>ms_matchedCurrIndices := insert currIdx (ms_matchedCurrIndices ms),
            ms_matchedPrevIds := insert (id_b prev) (ms_matchedPrevIds ms),
            ms_tracked := ms_tracked ms @
              [cur\<lparr>id_b := id_b prev, speed_kmh := Some (fst velocity),
                    direction_deg := Some (snd velocity), confidence := conf,
                    status := Active\<rparr>]\<rparr>)"

text \<open>
  The candidate list of one current balloon: the previous balloons near it whose score is
  finite and at most \<open>MAX_ACCEPTABLE_COST\<close>, sorted by cost with a stable sort.
\<close>

definition candidatesOf ::
  "BalloonDataPoint list \<Rightarrow> history_map \<Rightarrow> BalloonDataPoint \<Rightarrow> CandidateMatch list" where
  "candidatesOf previousData historyByBalloonId cur =
     (let nearby = treeSearch (longitude cur - searchRadius) (latitude cur - searchRadius)
                     (longitude cur + searchRadius) (latitude cur + searchRadius) previousData
      in sort_key cm_cost
           (List.map_filter
              (\<lambda>b. case calculateMatchScore cur b
                           (case historyByBalloonId (id_b b) of None \<Rightarrow> [] | Some h \<Rightarrow> h) of
                      None \<Rightarrow> None
                    | Some c \<Rightarrow>
                        (if c \<le> MAX_ACCEPTABLE_COST
                         then Some \<lparr>cm_prevIdx = the (prevIndexMap previousData (id_b b)),
                                    cm_prev = b, cm_cost = c\<rparr>
                         else None))
              nearby))"

text \<open>How many current balloons have the previous balloon \<open>ident\<close> as their best candidate.\<close>

definition prevIdDemand :: "CandidateMatch list list \<Rightarrow> string \<Rightarrow> nat" where
  "prevIdDemand candidatesPerCurrent ident =
     length (filter (\<lambda>cs. case cs of [] \<Rightarrow> False | best # _ \<Rightarrow> id_b (cm_prev best) = ident)
               candidatesPerCurrent)"

text \<open>
  A current position is contested when its candidates name more than one previous id and
  more than one of them costs less than twice the best cost and less than 50.
\<close>

definition contested :: "CandidateMatch list \<Rightarrow> bool" where
  "contested candidates =
     (case candidates of
        [] \<Rightarrow> False
      | best # _ \<Rightarrow>
          length (remdups (map (\<lambda>c. id_b (cm_prev c)) candidates)) > 1 \<and>
          length candidates \<ge> 2 \<and>
          length (filter (\<lambda>c. cm_cost c < cm_cost best * 2 \<and> cm_cost c < 50) candidates) > 1)"

text \<open>One round of the first pass (phase 1) for the current balloon at \<open>currIdx\<close>.\<close>

definition greedyStep ::
  "BalloonDataPoint list \<Rightarrow> CandidateMatch list list \<Rightarrow> nat \<Rightarrow> match_state \<Rightarrow> match_state" where
  "greedyStep currentData candidatesPerCurrent currIdx ms =
     (case candidatesPerCurrent ! currIdx of
        [] \<Rightarrow> ms
      | best # others \<Rightarrow>
          (let cur = currentData ! currIdx;
               altDelta = \<bar>altitude_km cur - altitude_km (cm_prev best)\<bar>;
               deferred = ms\<lparr>ms_conflictingCurrIndices := ms_conflictingCurrIndices ms @ [currIdx]\<rparr>
           in if prevIdDemand candidatesPerCurrent (id_b (cm_prev best)) > 1 then deferred
              else if contested (best # others) then deferred
              else
                (case others of
                   [] \<Rightarrow>
                     (if id_b (cm_prev best) \<notin> ms_matchedPrevIds ms \<and>
                         altDelta < GREEDY_ALTITUDE_THRESHOLD \<and>
                         cm_cost best < GREEDY_COST_THRESHOLD
                      then addMatch cur (cm_prev best) (cm_cost best) currIdx ms
                      else deferred)
                 | secondBest # _ \<Rightarrow>
                     (if cm_cost best < GREEDY_COST_THRESHOLD \<and>
                         cm_cost best < cm_cost secondBest * 0.5 \<and>
                         altDelta < GREEDY_ALTITUDE_THRESHOLD \<and>
                         id_b (cm_prev best) \<notin> ms_matchedPrevIds ms
                      then addMatch cur (cm_prev best) (cm_cost best) currIdx ms
                      else deferred))))"

text \<open>The elements of a JavaScript \<open>Set\<close> in insertion order: first occurrences.\<close>

definition insertionOrder :: "'a list \<Rightarrow> 'a list" where
  "insertionOrder xs = rev (remdups (rev xs))"

definition prevIdxToCol :: "nat list \<Rightarrow> nat \<Rightarrow> nat option" where
  "prevIdxToCol unmatchedPrevIndices =
     map_of (rev (zip unmatchedPrevIndices [0..<length unmatchedPrevIndices]))"

definition costRow :: "nat \<Rightarrow> nat list \<Rightarrow> CandidateMatch list \<Rightarrow> real list" where
  "costRow k unmatchedPrevIndices candidates =
     fold (\<lambda>c row. case prevIdxToCol unmatchedPrevIndices (cm_prevIdx c) of
                      None \<Rightarrow> row
                    | Some col \<Rightarrow> row[col := cm_cost c])
       candidates (replicate k INFINITY_COST)"

definition costMatrix ::
  "nat \<Rightarrow> nat list \<Rightarrow> nat list \<Rightarrow> (nat \<Rightarrow> CandidateMatch list) \<Rightarrow> real list list" where
  "costMatrix k conflicting unmatchedPrevIndices conflictCandidates =
     map (\<lambda>i. if i < length conflicting
              then costRow k unmatchedPrevIndices (conflictCandidates (conflicting ! i))
              else replicate k INFINITY_COST)
       [0..<k]"

text \<open>One assignment \<open>[i, j]\<close> of the Hungarian result.\<close>

definition hungarianStep ::
  "BalloonDataPoint list \<Rightarrow> BalloonDataPoint list \<Rightarrow> nat list \<Rightarrow> nat list \<Rightarrow> real list list \<Rightarrow>
   nat \<times> nat \<Rightarrow> match_state \<Rightarrow> match_state" where
  "hungarianStep currentData previousData conflicting unmatchedPrevIndices matrix ij ms =
     (if fst ij \<ge> length conflicting \<or> snd ij \<ge> length unmatchedPrevIndices then ms
      else
        let cost = matrix ! fst ij ! snd ij
        in if cost \<ge> INFINITY_COST then ms
           else addMatch (currentData ! (conflicting ! fst ij))
                  (previousData ! (unmatchedPrevIndices ! snd ij)) cost
                  (conflicting ! fst ij) ms)"

text \<open>
  Phase 2. The assignment solver is the library \<open>munkres-js\<close>, taken here as the parameter
  \<open>munkres\<close>: a function from a square cost matrix to index pairs.
\<close>

definition hungarianPhase ::
  "(real list list \<Rightarrow> (nat \<times> nat) list) \<Rightarrow> BalloonDataPoint list \<Rightarrow> BalloonDataPoint list \<Rightarrow>
   CandidateMatch list list \<Rightarrow> match_state \<Rightarrow> match_state" where
  "hungarianPhase munkres currentData previousData candidatesPerCurrent ms =
     (let conflicting = ms_conflictingCurrIndices ms;
          conflictCandidates =
            (\<lambda>currIdx. filter (\<lambda>c. id_b (cm_prev c) \<notin> ms_matchedPrevIds ms)
                          (candidatesPerCurrent ! currIdx));
          unmatchedPrevIndices =
            insertionOrder (concat (map (\<lambda>currIdx. map cm_prevIdx (conflictCandidates currIdx))
                                      conflicting))
      in if conflicting = [] then ms
         else if unmatchedPrevIndices = [] then ms
         else
           let k = max (length conflicting) (length unmatchedPrevIndices);
               matrix = costMatrix k conflicting unmatchedPrevIndices conflictCandidates
           in fold (hungarianStep currentData previousData conflicting unmatchedPrevIndices matrix)
                (munkres matrix) ms)"

text \<open>The last loop: a current balloon that was not matched gets the next id.\<close>

definition assignNewStep ::
  "BalloonDataPoint list \<Rightarrow> nat set \<Rightarrow> nat \<Rightarrow> BalloonDataPoint list \<times> int \<Rightarrow>
   BalloonDataPoint list \<times> int" where
  "assignNewStep currentData matched i acc =
     (if i \<in> matched then acc
      else (fst acc @ [(currentData ! i)\<lparr>id_b := balloonId (snd acc), status := New,
                                          confidence := 0.5\<rparr>],
            jsIncrement (snd acc)))"

text \<open>The callback of \<open>currentData.map\<close> when there are no previous balloons.\<close>

definition firstHourStep ::
  "BalloonDataPoint \<Rightarrow> BalloonDataPoint list \<times> int \<Rightarrow> BalloonDataPoint list \<times> int" where
  "firstHourStep balloon acc =
     (fst acc @ [balloon\<lparr>id_b := balloonId (snd acc), status := New, confidence := 1\<rparr>],
      jsIncrement (snd acc))"

text \<open>Phases 1 and 2: they read neither the id counter nor the database.\<close>

definition matchPhases ::
  "(real list list \<Rightarrow> (nat \<times> nat) list) \<Rightarrow> BalloonDataPoint list \<Rightarrow> BalloonDataPoint list \<Rightarrow>
   history_map \<Rightarrow> match_state" where
  "matchPhases munkres currentData previousData historyByBalloonId =
     (let candidatesPerCurrent = map (candidatesOf previousData historyByBalloonId) currentData;
          ms1 = fold (greedyStep currentData candidatesPerCurrent) [0..<length currentData]
                  \<lparr>ms_tracked = [], ms_matchedPrevIds = {}, ms_matchedCurrIndices = {},
                   ms_conflictingCurrIndices = []\<rparr>
      in hungarianPhase munkres currentData previousData candidatesPerCurrent ms1)"

text \<open>
  \<open>trackBalloons\<close>. With no previous balloons every current balloon gets a new id and the
  result is returned at once; otherwise the result is also written to the database.
\<close>

definition trackBalloons ::
  "(real list list \<Rightarrow> (nat \<times> nat) list) \<Rightarrow> BalloonDataPoint list \<Rightarrow> BalloonDataPoint list \<Rightarrow>
   history_map \<Rightarrow> world \<Rightarrow> BalloonDataPoint list \<times> world" where
  "trackBalloons munkres currentData previousData historyByBalloonId w =
     (if previousData = []
      then
        let fresh = fold firstHourStep currentData ([], w_nextId w)
        in (fst fresh, w\<lparr>w_nextId := snd fresh\<rparr>)
      else
        let ms = matchPhases munkres currentData previousData historyByBalloonId;
            fresh = fold (assignNewStep currentData (ms_matchedCurrIndices ms))
                      [0..<length currentData] (ms_tracked ms, w_nextId w)
        in (fst fresh,
            w\<lparr>w_nextId := snd fresh, w_db := saveTrackedBalloons (fst fresh) (w_db w)\<rparr>))"

section \<open>Ingest Controller: \<open>runHourlyUpdate\<close> (windborne.service.ts)\<close>

text \<open>\<open>getTimestampForOffset(0)\<close>: the current instant with minutes and below set to zero.\<close>

definition getCurrentTimestamp :: "int \<Rightarrow> int" where
  "getCurrentTimestamp now = now - now mod hourMs"

text \<open>
  \<open>raw[i]\<close> of a snapshot entry. After \<open>fetchHourData\<close> every entry is an array of three
  finite numbers; the value 0 stands for what cannot occur there.
\<close>

definition rawCoord :: "json \<Rightarrow> nat \<Rightarrow> real" where
  "rawCoord raw i =
     (case raw of
        JArr xs \<Rightarrow> (if i < length xs then (case xs ! i of JNum (Num r) \<Rightarrow> r | _ \<Rightarrow> 0) else 0)
      | _ \<Rightarrow> 0)"

definition newHourBalloon :: "int \<Rightarrow> nat \<times> json \<Rightarrow> BalloonDataPoint" where
  "newHourBalloon currentTimestamp ir =
     \<lparr>id_b = ''temp_0_'' @ decimal (fst ir), latitude = rawCoord (snd ir) 0,
      longitude = rawCoord (snd ir) 1, altitude_km = rawCoord (snd ir) 2,
      timestamp = currentTimestamp, hour_offset = 0, speed_kmh = None, direction_deg = None,
      confidence = 1, status = Active\<rparr>"

text \<open>
  \<open>runHourlyUpdate\<close>. The response of the upstream feed for hour 0 is \<open>up\<close>; \<open>now\<close> is the
  clock when the update starts and \<open>nowCleanup\<close> the clock that the cleanup reads. The
  full fetch of the other branch is the parameter \<open>fallbackFullFetch\<close>. Database calls
  are taken to succeed, so the \<open>catch\<close> branch is not entered.
\<close>

definition runHourlyUpdate ::
  "(real list list \<Rightarrow> (nat \<times> nat) list) \<Rightarrow> (world \<Rightarrow> world) \<Rightarrow> upstream \<Rightarrow> int \<Rightarrow> int \<Rightarrow> bool \<Rightarrow>
   world \<Rightarrow> world" where
  "runHourlyUpdate munkres fallbackFullFetch up now nowCleanup forceRun w =
     (if \<not> w_autoUpdateEnabled w \<and> \<not> forceRun then w
      else
        let currentTimestamp = getCurrentTimestamp now;
            newHourData = fetchHourData up;
            w1 =
              (if newHourData \<noteq> []
               then
                 let wa = w\<lparr>w_db := saveBalloonSnapshot currentTimestamp newHourData (w_db w)\<rparr>;
                     previousHourFormatted = getCurrentTimestamp (currentTimestamp - 60 * 60 * 1000);
                     previousHourTracked = getTrackedBalloonsAtTimestamp previousHourFormatted (w_db wa);
                     newHourBalloons = map (newHourBalloon currentTimestamp)
                                         (zip [0..<length newHourData] newHourData);
                     res = trackBalloons munkres newHourBalloons previousHourTracked Map.empty wa;
                     wb = snd res
                 in wb\<lparr>w_db := saveTrackedBalloons (fst res) (w_db wb),
                       w_balloonHistory := fst res,
                       w_lastUpdateTimestamp := Some currentTimestamp\<rparr>
               else fallbackFullFetch w)
        in w1\<lparr>w_db := cleanupStaleData (w_timeZone w1) nowCleanup (w_db w1)\<rparr>)"

text \<open>\<open>triggerImmediateUpdate\<close> runs the update without forcing it.\<close>

definition triggerImmediateUpdate ::
  "(real list list \<Rightarrow> (nat \<times> nat) list) \<Rightarrow> (world \<Rightarrow> world) \<Rightarrow> upstream \<Rightarrow> int \<Rightarrow> int \<Rightarrow>
   world \<Rightarrow> world" where
  "triggerImmediateUpdate munkres fallbackFullFetch up now nowCleanup w =
     runHourlyUpdate munkres fallbackFullFetch up now nowCleanup False w"

section \<open>Wind Client (wind.service.ts) and Wind Cache (database.service.ts)\<close>

record WindData =
  wd_latitude :: real
  wd_longitude :: real
  wd_altitude_km :: real
  wd_pressure_hpa :: real
  wd_wind_u_ms :: real
  wd_wind_v_ms :: real
  wd_wind_speed_kmh :: real
  wd_wind_direction_deg :: real
  wd_timestamp :: int

text \<open>One requested location: \<open>{latitude, longitude, altitude_km, timestamp?}\<close>.\<close>

record wind_location =
  loc_latitude :: real
  loc_longitude :: real
  loc_altitude_km :: real
  loc_timestamp :: "int option"

text \<open>
  \<open>x.toFixed(d)\<close>: the sign and the digits, the magnitude rounded half up at \<open>d\<close>
  decimals. Two numbers have the same text exactly when they have the same sign and
  rounded magnitude.
\<close>

definition toFixed :: "nat \<Rightarrow> real \<Rightarrow> bool \<times> nat" where
  "toFixed d x = (x < 0, nat \<lfloor>\<bar>x\<bar> * 10 ^ d + 1 / 2\<rfloor>)"

text \<open>\<open>Number(x.toFixed(1))\<close>, in tenths.\<close>

definition roundTenths :: "real \<Rightarrow> int" where
  "roundTenths x = (if x < 0 then - 1 else 1) * \<lfloor>\<bar>x\<bar> * 10 + 1 / 2\<rfloor>"

text \<open>
  The table \<open>wind_cache\<close> with primary key \<open>(lat, lon, altitude_km, timestamp)\<close>; the
  first three are rounded to one decimal and the fourth is the hour of the wind vector.
\<close>

type_synonym wind_cache = "((int \<times> int \<times> int \<times> int) \<times> WindData) list"

definition setWindCache :: "WindData \<Rightarrow> wind_cache \<Rightarrow> wind_cache" where
  "setWindCache d cache =
     AList.update (roundTenths (wd_latitude d), roundTenths (wd_longitude d),
                   roundTenths (wd_altitude_km d), wd_timestamp d) d cache"

text \<open>
  With a timestamp the row of that key; without one the newest row of the place. The test
  \<open>if (timestamp)\<close> takes the timestamp 0 for a missing one.
\<close>

definition getWindCache ::
  "real \<Rightarrow> real \<Rightarrow> real \<Rightarrow> int option \<Rightarrow> wind_cache \<Rightarrow> (WindData \<times> int) option" where
  "getWindCache lat lon alt ts cache =
     (case (if ts = Some 0 then None else ts) of
        Some t \<Rightarrow>
          map_option (\<lambda>d. (d, t))
            (map_of cache (roundTenths lat, roundTenths lon, roundTenths alt, t))
      | None \<Rightarrow>
          (case filter (\<lambda>r. fst (fst r) = roundTenths lat \<and> fst (snd (fst r)) = roundTenths lon \<and>
                           fst (snd (snd (fst r))) = roundTenths alt) cache of
             [] \<Rightarrow> None
           | r # rs \<Rightarrow>
               (let best = fold (\<lambda>x m. if snd (snd (snd (fst m))) < snd (snd (snd (fst x))) then x else m)
                             rs r
                in Some (snd best, snd (snd (snd (fst best)))))))"

text \<open>The request sent to the provider, and what comes back.\<close>

record meteo_request =
  mq_latitude :: "(bool \<times> nat) list"
  mq_longitude :: "(bool \<times> nat) list"
  mq_pressure :: real
  mq_forecast_days :: int
  mq_past_days :: int

text \<open>
  The \<open>hourly\<close> object of one location in the response: the times (as instants), and
  the two wind arrays of the requested pressure level, which may be missing and whose
  entries may be \<open>null\<close>.
\<close>

record meteo_hourly =
  mh_time :: "int list"
  mh_wind_speed :: "real option list option"
  mh_wind_direction :: "real option list option"

text \<open>
  A request is rejected (with the status of the response, if there was one) or resolved
  with one entry per location, each with or without \<open>hourly\<close>.
\<close>

datatype meteo_response = Rejected "int option" | Resolved "meteo_hourly option list"

datatype wind_event = HttpGet meteo_request | Sleep int

text \<open>The state the Wind Client works on: the cache table and the trace of what it sent.\<close>

record wind_world =
  ww_cache :: wind_cache
  ww_trace :: "wind_event list"

type_synonym wind_key = "(bool \<times> nat) \<times> (bool \<times> nat) \<times> (bool \<times> nat) \<times> int option"

definition PRESSURE_LEVELS :: "real list" where
  "PRESSURE_LEVELS =
     [1000, 975, 950, 925, 900, 850, 800, 700, 600, 500, 400, 300, 250, 200, 150, 100, 70, 50, 30]"

text \<open>\<open>reduce\<close> without an initial value starts from the first level.\<close>

definition altitudeToPressure :: "real \<Rightarrow> real" where
  "altitudeToPressure alt =
     (let pressure = 1013.25 * exp (- alt / 7.4)
      in fold (\<lambda>c prev. if \<bar>c - pressure\<bar> < \<bar>prev - pressure\<bar> then c else prev)
           (tl PRESSURE_LEVELS) (hd PRESSURE_LEVELS))"

text \<open>\<open>date.setMinutes(0, 0, 0)\<close>.\<close>

definition floorHour :: "int \<Rightarrow> int" where
  "floorHour t = t - t mod hourMs"

record LocationGroup =
  lg_pressure :: real
  lg_locations :: "wind_location list"
  lg_minTimestamp :: "int option"
  lg_maxTimestamp :: "int option"

text \<open>One round of \<open>locations.forEach\<close>: the groups are a \<open>Map\<close> keyed by pressure.\<close>

definition addToGroup :: "wind_location \<Rightarrow> (real \<times> LocationGroup) list \<Rightarrow> (real \<times> LocationGroup) list" where
  "addToGroup loc groups =
     (let pressure = altitudeToPressure (loc_altitude_km loc);
          roundedTimestamp = map_option floorHour (loc_timestamp loc);
          g0 = (case map_of groups pressure of
                  Some g \<Rightarrow> g
                | None \<Rightarrow> \<lparr>lg_pressure = pressure, lg_locations = [],
                            lg_minTimestamp = roundedTimestamp, lg_maxTimestamp = roundedTimestamp\<rparr>);
          g1 = g0\<lparr>lg_locations := lg_locations g0 @ [loc]\<rparr>;
          g2 = (case roundedTimestamp of
                  None \<Rightarrow> g1
                | Some rt \<Rightarrow>
                    g1\<lparr>lg_minTimestamp :=
                          (case lg_minTimestamp g1 of
                             None \<Rightarrow> Some rt
                           | Some m \<Rightarrow> if rt < m then Some rt else Some m),
                        lg_maxTimestamp :=
                          (case lg_maxTimestamp g1 of
                             None \<Rightarrow> Some rt
                           | Some m \<Rightarrow> if rt > m then Some rt else Some m)\<rparr>)
      in AList.update pressure g2 groups)"

text \<open>\<open>past_days\<close> and \<open>forecast_days\<close> of a group, from its time range and the clock.\<close>

definition timeFrame :: "int \<Rightarrow> int option \<Rightarrow> int option \<Rightarrow> int \<times> int" where
  "timeFrame now minTimestamp maxTimestamp =
     (case minTimestamp of
        None \<Rightarrow> (0, 1)
      | Some oldestTime \<Rightarrow>
          (let newestTime = (case maxTimestamp of Some m \<Rightarrow> m | None \<Rightarrow> oldestTime);
               diffDaysOldest = real_of_int (oldestTime - now) / (1000 * 60 * 60 * 24);
               diffDaysNewest = real_of_int (newestTime - now) / (1000 * 60 * 60 * 24);
               pf = (if diffDaysNewest < 0 then (\<lceil>\<bar>diffDaysOldest\<bar>\<rceil> + 1, 1)
                     else if diffDaysOldest > 1 then (0, \<lceil>diffDaysNewest\<rceil> + 1)
                     else ((if diffDaysOldest < 0 then \<lceil>\<bar>diffDaysOldest\<bar>\<rceil> + 1 else 0),
                           (if diffDaysNewest > 0 then \<lceil>diffDaysNewest\<rceil> + 1 else 1)))
           in (min (fst pf) 3, min (snd pf) 3)))"

text \<open>
  The hour of the response closest to \<open>targetTime\<close>: the first index with the least
  distance, and that distance (\<open>None\<close> for the initial \<open>Infinity\<close>).
\<close>

definition closestHour :: "int list \<Rightarrow> int \<Rightarrow> int option \<times> nat" where
  "closestHour hourTimes targetTime =
     fold (\<lambda>j acc. let diff = \<bar>hourTimes ! j - targetTime\<bar>
                      in (case fst acc of
                            None \<Rightarrow> (Some diff, j)
                          | Some minDiff \<Rightarrow> if diff < minDiff then (Some diff, j) else acc))
       [0..<length hourTimes] (None, 0)"

datatype bind_outcome = Skipped | Thrown | Bound wind_key WindData

text \<open>
  The callback of \<open>results.forEach\<close> for the entry at \<open>index\<close>. It returns early, it
  throws a TypeError (no location at that index, or no time at the chosen hour), or it
  stores a wind vector under the key of the location.
\<close>

definition bindResult :: "real \<Rightarrow> wind_location list \<Rightarrow> nat \<Rightarrow> meteo_hourly option \<Rightarrow> bind_outcome" where
  "bindResult pressure batch index entry =
     (case entry of
        None \<Rightarrow> Skipped
      | Some hourly \<Rightarrow>
          (case mh_wind_speed hourly of
             None \<Rightarrow> Skipped
           | Some speeds \<Rightarrow>
               (case mh_wind_direction hourly of
                  None \<Rightarrow> Skipped
                | Some directions \<Rightarrow>
                    (if index \<ge> length batch then Thrown
                     else
                       let loc = batch ! index;
                           found = (case loc_timestamp loc of
                                      None \<Rightarrow> (Some 0, 0)
                                    | Some lt \<Rightarrow> closestHour (mh_time hourly) (floorHour lt));
                           hourIndex = snd found;
                           tooFar = (case loc_timestamp loc of
                                       None \<Rightarrow> False
                                     | Some lt \<Rightarrow>
                                         (case fst found of
                                            None \<Rightarrow> True
                                          | Some minDiff \<Rightarrow> minDiff > 90 * 60 * 1000))
                       in if tooFar then Skipped
                          else if hourIndex \<ge> length (mh_time hourly) then Thrown
                          else
                            (case (if hourIndex < length speeds then speeds ! hourIndex else None) of
                               None \<Rightarrow> Skipped
                             | Some wind_speed_kmh \<Rightarrow>
                                 (case (if hourIndex < length directions
                                        then directions ! hourIndex else None) of
                                    None \<Rightarrow> Skipped
                                  | Some windDirection_deg \<Rightarrow>
                                      (let windSpeed_ms = wind_speed_kmh / 3.6;
                                           direction_rad = (windDirection_deg * pi) / 180
                                       in Bound
                                            (toFixed 2 (loc_latitude loc), toFixed 2 (loc_longitude loc),
                                             toFixed 1 (loc_altitude_km loc), loc_timestamp loc)
                                            \<lparr>wd_latitude = loc_latitude loc,
                                             wd_longitude = loc_longitude loc,
                                             wd_altitude_km = loc_altitude_km loc,
                                             wd_pressure_hpa = pressure,
                                             wd_wind_u_ms = - windSpeed_ms * sin direction_rad,
                                             wd_wind_v_ms = - windSpeed_ms * cos direction_rad,
                                             wd_wind_speed_kmh = wind_speed_kmh,
                                             wd_wind_direction_deg = windDirection_deg,
                                             wd_timestamp = mh_time hourly ! hourIndex\<rparr>)))))))"

text \<open>\<open>results.forEach\<close>: an exception ends the loop and keeps what was stored before.\<close>

fun bindAll ::
  "real \<Rightarrow> wind_location list \<Rightarrow> nat \<Rightarrow> meteo_hourly option list \<Rightarrow> (wind_key \<times> WindData) list \<Rightarrow>
   (wind_key \<times> WindData) list \<times> bool" where
  "bindAll pressure batch index [] windDataMap = (windDataMap, False)"
| "bindAll pressure batch index (entry # entries) windDataMap =
     (case bindResult pressure batch index entry of
        Skipped \<Rightarrow> bindAll pressure batch (Suc index) entries windDataMap
      | Thrown \<Rightarrow> (windDataMap, True)
      | Bound k d \<Rightarrow> bindAll pressure batch (Suc index) entries (AList.update k d windDataMap))"

definition BATCH_SIZE :: nat where
  "BATCH_SIZE = 300"

text \<open>
  One batch of a pressure group, starting at offset \<open>i\<close>: the request, then either the
  binding of the results and a pause of one second when more batches follow, or the
  \<open>catch\<close> branch, which waits ten seconds on status 429 and goes on without the batch.
\<close>

definition fetchBatch ::
  "(meteo_request \<Rightarrow> meteo_response) \<Rightarrow> real \<Rightarrow> int \<times> int \<Rightarrow> wind_location list \<Rightarrow> nat \<Rightarrow>
   (wind_key \<times> WindData) list \<times> wind_event list \<Rightarrow> (wind_key \<times> WindData) list \<times> wind_event list" where
  "fetchBatch http pressure frame locs i acc =
     (let batch = take BATCH_SIZE (drop i locs);
          request = \<lparr>mq_latitude = map (\<lambda>loc. toFixed 2 (loc_latitude loc)) batch,
                     mq_longitude = map (\<lambda>loc. toFixed 2 (loc_longitude loc)) batch,
                     mq_pressure = pressure, mq_forecast_days = snd frame,
                     mq_past_days = fst frame\<rparr>;
          sent = snd acc @ [HttpGet request]
      in case http request of
           Rejected st \<Rightarrow> (fst acc, if st = Some 429 then sent @ [Sleep 10000] else sent)
         | Resolved results \<Rightarrow>
             (let bound = bindAll pressure batch 0 results (fst acc)
              in (fst bound,
                  if \<not> snd bound \<and> i + BATCH_SIZE < length locs then sent @ [Sleep 1000] else sent)))"

definition fetchGroup ::
  "(meteo_request \<Rightarrow> meteo_response) \<Rightarrow> int \<Rightarrow> LocationGroup \<Rightarrow>
   (wind_key \<times> WindData) list \<times> wind_event list \<Rightarrow> (wind_key \<times> WindData) list \<times> wind_event list" where
  "fetchGroup http now g acc =
     (let locs = lg_locations g;
          frame = timeFrame now (lg_minTimestamp g) (lg_maxTimestamp g)
      in fold (\<lambda>k. fetchBatch http (lg_pressure g) frame locs (k * BATCH_SIZE))
           [0..<(length locs + BATCH_SIZE - 1) div BATCH_SIZE] acc)"

text \<open>
  \<open>getWindAtMultipleLocations\<close>. The provider is the parameter \<open>http\<close> and \<open>now\<close> is the
  clock. The result is the map from location keys to wind vectors, in insertion order.
\<close>

definition getWindAtMultipleLocations ::
  "(meteo_request \<Rightarrow> meteo_response) \<Rightarrow> int \<Rightarrow> wind_location list \<Rightarrow> wind_world \<Rightarrow>
   (wind_key \<times> WindData) list \<times> wind_world" where
  "getWindAtMultipleLocations http now locations ww =
     (if locations = [] then ([], ww)
      else
        let locationGroups = fold addToGroup locations [];
            res = fold (\<lambda>g. fetchGroup http now (snd g)) locationGroups ([], ww_trace ww)
        in (fst res, ww\<lparr>ww_trace := snd res\<rparr>))"

section \<open>Predictor (trajectory.service.ts)\<close>

datatype prediction_method = Persistence | Wind | Hybrid

record PredictedPosition =
  pp_latitude :: real
  pp_longitude :: real
  pp_altitude_km :: real
  pp_timestamp :: int
  pp_confidence :: real
  pp_method :: prediction_method

record BalloonTrajectory =
  bt_balloon_id :: string
  bt_historical_positions :: "BalloonDataPoint list"
  bt_predicted_positions :: "PredictedPosition list"
  bt_prediction_horizon_hours :: nat

record ValueDataPoint =
  vp_hour :: nat
  vp_actual_position :: "real \<times> real \<times> real \<times> int"
  vp_predicted_position :: "real \<times> real \<times> real \<times> real"
  vp_prediction_error_km :: real
  vp_value_score :: real

record ValueCalculationResult =
  vr_balloon_id :: string
  vr_calculation_timestamp :: int
  vr_hours_calculated :: int
  vr_method :: prediction_method
  vr_overall_value_score :: real
  vr_value_over_time :: "ValueDataPoint list"

text \<open>The spherical forward formula; the result is (latitude, longitude) in degrees.\<close>

definition calculateNewPosition :: "real \<Rightarrow> real \<Rightarrow> real \<Rightarrow> real \<Rightarrow> real \<times> real" where
  "calculateNewPosition lat lon displacement_km bearing_deg =
     (let bearing_rad = toRadians bearing_deg;
          lat_rad = toRadians lat;
          angular_distance = displacement_km / EARTH_RADIUS_KM;
          new_lat_rad = arcsin (sin lat_rad * cos angular_distance +
                                cos lat_rad * sin angular_distance * cos bearing_rad);
          new_lon_rad = toRadians lon +
                        atan2 (sin bearing_rad * sin angular_distance * cos lat_rad)
                              (cos angular_distance - sin lat_rad * sin new_lat_rad)
      in (toDegrees new_lat_rad, toDegrees new_lon_rad))"

text \<open>\<open>x || 0\<close> for an optional number.\<close>

definition orZero :: "real option \<Rightarrow> real" where
  "orZero v = (case v of None \<Rightarrow> 0 | Some r \<Rightarrow> r)"

text \<open>
  \<open>futureTime.setHours(futureTime.getHours() + hoursAhead)\<close>, on a host whose clocks are
  not changed within those hours. The timestamp of a prediction enters no statement below.
\<close>

definition futureTime :: "int \<Rightarrow> int \<Rightarrow> int" where
  "futureTime ts hoursAhead = ts + hoursAhead * hourMs"

definition predictByPersistenceSync ::
  "BalloonDataPoint \<Rightarrow> BalloonDataPoint list \<Rightarrow> int \<Rightarrow> PredictedPosition" where
  "predictByPersistenceSync current historicalPositions hoursAhead =
     (let speed = orZero (speed_kmh current);
          direction = orZero (direction_deg current)
      in if speed = 0
         then \<lparr>pp_latitude = latitude current, pp_longitude = longitude current,
               pp_altitude_km = altitude_km current,
               pp_timestamp = futureTime (timestamp current) hoursAhead,
               pp_confidence = 0.3, pp_method = Persistence\<rparr>
         else
           let displacement_km = speed * real_of_int hoursAhead;
               newPos = calculateNewPosition (latitude current) (longitude current)
                          displacement_km direction
           in \<lparr>pp_latitude = fst newPos, pp_longitude = snd newPos,
                pp_altitude_km = altitude_km current,
                pp_timestamp = futureTime (timestamp current) hoursAhead,
                pp_confidence = max 0.2 (0.8 - real_of_int hoursAhead * 0.15),
                pp_method = Persistence\<rparr>)"

definition predictByWindSync ::
  "BalloonDataPoint \<Rightarrow> WindData option \<Rightarrow> int \<Rightarrow> PredictedPosition" where
  "predictByWindSync current windData hoursAhead =
     (case windData of
        None \<Rightarrow>
          \<lparr>pp_latitude = latitude current, pp_longitude = longitude current,
           pp_altitude_km = altitude_km current,
           pp_timestamp = futureTime (timestamp current) hoursAhead,
           pp_confidence = 0.3, pp_method = Wind\<rparr>
      | Some wd \<Rightarrow>
          (let displacement_km = wd_wind_speed_kmh wd * real_of_int hoursAhead;
               newPos = calculateNewPosition (latitude current) (longitude current)
                          displacement_km (wd_wind_direction_deg wd)
           in \<lparr>pp_latitude = fst newPos, pp_longitude = snd newPos,
                pp_altitude_km = altitude_km current,
                pp_timestamp = futureTime (timestamp current) hoursAhead,
                pp_confidence = max 0.3 (0.9 - real_of_int hoursAhead * 0.12),
                pp_method = Wind\<rparr>))"

definition predictByHybridSync ::
  "BalloonDataPoint \<Rightarrow> BalloonDataPoint list \<Rightarrow> WindData option \<Rightarrow> int \<Rightarrow> PredictedPosition" where
  "predictByHybridSync current historicalPositions windData hoursAhead =
     (let persistencePred = predictByPersistenceSync current historicalPositions hoursAhead;
          windPred = predictByWindSync current windData hoursAhead
      in \<lparr>pp_latitude = pp_latitude windPred * 0.6 + pp_latitude persistencePred * 0.4,
           pp_longitude = pp_longitude windPred * 0.6 + pp_longitude persistencePred * 0.4,
           pp_altitude_km = altitude_km current,
           pp_timestamp = futureTime (timestamp current) hoursAhead,
           pp_confidence = max 0.4 (0.95 - real_of_int hoursAhead * 0.1),
           pp_method = Hybrid\<rparr>)"

definition predictOne ::
  "prediction_method \<Rightarrow> BalloonDataPoint \<Rightarrow> BalloonDataPoint list \<Rightarrow> WindData option \<Rightarrow>
   PredictedPosition" where
  "predictOne m current historicalPositions windData =
     (case m of
        Persistence \<Rightarrow> predictByPersistenceSync current historicalPositions 1
      | Wind \<Rightarrow> predictByWindSync current windData 1
      | Hybrid \<Rightarrow> predictByHybridSync current historicalPositions windData 1)"

text \<open>
  One round of the loop of \<open>predictTrajectoryWithWindData\<close>: the prediction is made one
  hour ahead of the anchor, and the anchor takes over its position.
\<close>

definition predictStep ::
  "prediction_method \<Rightarrow> BalloonDataPoint list \<Rightarrow> (wind_key \<times> WindData) list \<Rightarrow> nat \<Rightarrow>
   BalloonDataPoint \<times> PredictedPosition list \<Rightarrow> BalloonDataPoint \<times> PredictedPosition list" where
  "predictStep m historicalPositions windDataMap hour acc =
     (let currentPos = fst acc;
          windKey = (toFixed 2 (latitude currentPos), toFixed 2 (longitude currentPos),
                     toFixed 1 (altitude_km currentPos), None);
          prediction = predictOne m currentPos historicalPositions (map_of windDataMap windKey)
      in (currentPos\<lparr>latitude := pp_latitude prediction, longitude := pp_longitude prediction,
                      altitude_km := pp_altitude_km prediction\<rparr>,
          snd acc @ [prediction]))"

definition predictTrajectoryWithWindData ::
  "BalloonDataPoint \<Rightarrow> BalloonDataPoint list \<Rightarrow> (wind_key \<times> WindData) list \<Rightarrow> nat \<Rightarrow>
   prediction_method \<Rightarrow> BalloonTrajectory" where
  "predictTrajectoryWithWindData balloon historicalPositions windDataMap predictionHours m =
     \<lparr>bt_balloon_id = id_b balloon, bt_historical_positions = historicalPositions,
      bt_predicted_positions =
        snd (fold (predictStep m historicalPositions windDataMap) [1..<Suc predictionHours]
               (balloon, [])),
      bt_prediction_horizon_hours = predictionHours\<rparr>"

text \<open>The body of the scoring loop for hour \<open>i\<close> of the sorted trajectory.\<close>

definition valuePoint ::
  "prediction_method \<Rightarrow> BalloonDataPoint list \<Rightarrow> (wind_key \<times> WindData) list \<Rightarrow> nat \<Rightarrow> ValueDataPoint" where
  "valuePoint m sortedTrajectory windDataMap i =
     (let currentPos = sortedTrajectory ! i;
          actualNextPos = sortedTrajectory ! (i + 1);
          windKey = (toFixed 2 (latitude currentPos), toFixed 2 (longitude currentPos),
                     toFixed 1 (altitude_km currentPos), Some (timestamp currentPos));
          historicalContext = take (i + 1) sortedTrajectory;
          prediction = predictOne m currentPos historicalContext (map_of windDataMap windKey);
          errorKm = calculateDistance (pp_latitude prediction) (pp_longitude prediction)
                      (latitude actualNextPos) (longitude actualNextPos)
      in \<lparr>vp_hour = i,
          vp_actual_position = (latitude actualNextPos, longitude actualNextPos,
                                altitude_km actualNextPos, timestamp actualNextPos),
          vp_predicted_position = (pp_latitude prediction, pp_longitude prediction,
                                   pp_altitude_km prediction, pp_confidence prediction),
          vp_prediction_error_km = errorKm, vp_value_score = errorKm\<rparr>)"

datatype value_error = InsufficientData

text \<open>
  \<open>calculateBalloonValueOptimized\<close>: an \<open>Error\<close> is thrown for fewer than two positions
  or fewer than one hour; otherwise the wind of the first \<open>maxHours\<close> positions is
  fetched in a batch and every hour is scored. The sort by time is stable.
\<close>

definition calculateBalloonValueOptimized ::
  "(meteo_request \<Rightarrow> meteo_response) \<Rightarrow> int \<Rightarrow> string \<Rightarrow> BalloonDataPoint list \<Rightarrow> int \<Rightarrow>
   prediction_method \<Rightarrow> wind_world \<Rightarrow> (value_error + ValueCalculationResult) \<times> wind_world" where
  "calculateBalloonValueOptimized http now ident trajectory hours m ww =
     (if length trajectory < 2 then (Inl InsufficientData, ww)
      else
        let maxHours = min hours (int (length trajectory) - 1)
        in if maxHours < 1 then (Inl InsufficientData, ww)
           else
             let sortedTrajectory = sort_key timestamp trajectory;
                 windLocations =
                   map (\<lambda>pos. \<lparr>loc_latitude = latitude pos, loc_longitude = longitude pos,
                                 loc_altitude_km = altitude_km pos,
                                 loc_timestamp = Some (timestamp pos)\<rparr>)
                     (take (nat maxHours) sortedTrajectory);
                 fetched = getWindAtMultipleLocations http now windLocations ww;
                 valueOverTime = map (valuePoint m sortedTrajectory (fst fetched)) [0..<nat maxHours];
                 avgError =
                   (if length valueOverTime > 0
                    then sum_list (map vp_prediction_error_km valueOverTime) /
                         real (length valueOverTime)
                    else 0)
             in (Inr \<lparr>vr_balloon_id = ident, vr_calculation_timestamp = now,
                      vr_hours_calculated = maxHours, vr_method = m,
                      vr_overall_value_score = avgError, vr_value_over_time = valueOverTime\<rparr>,
                 snd fetched))"

section \<open>Query Service: \<open>GET /api/health\<close> (balloons.routes.ts)\<close>

datatype health_status = Healthy | Degraded | Unhealthy

text \<open>
  Timestamps are ISO strings in the source; here they are the milliseconds since the epoch
  that \<open>new Date(s).getTime()\<close> reads from them. \<open>Math.floor\<close> of the quotient is
  \<open>div\<close> on integers.
\<close>

definition getDataAgeMinutes :: "int option \<Rightarrow> int \<Rightarrow> int" where
  "getDataAgeMinutes lastUpdateTimestamp now =
     (case lastUpdateTimestamp of
        None \<Rightarrow> - 1
      | Some lastUpdate \<Rightarrow> (now - lastUpdate) div (1000 * 60))"

definition healthStatus :: "int \<Rightarrow> health_status" where
  "healthStatus dataAge =
     (if dataAge < 0 then Unhealthy
      else if dataAge > 90 then Unhealthy
      else if dataAge > 65 then Degraded
      else Healthy)"

section \<open>Auxiliary definitions for the statements\<close>

text \<open>
  The rows that \<open>trackBalloons\<close> makes for a list of balloons without a match, with the
  counter at \<open>n\<close> and the confidence \<open>c\<close>.
\<close>

fun mintRows :: "real \<Rightarrow> BalloonDataPoint list \<Rightarrow> int \<Rightarrow> BalloonDataPoint list" where
  "mintRows c [] n = []"
| "mintRows c (b # bs) n =
     b\<lparr>id_b := balloonId n, status := New, confidence := c\<rparr> # mintRows c bs (jsIncrement n)"

text \<open>The values that the counter passes in \<open>k\<close> increments from \<open>n\<close>.\<close>

fun counterValues :: "int \<Rightarrow> nat \<Rightarrow> int list" where
  "counterValues n 0 = []"
| "counterValues n (Suc k) = n # counterValues (jsIncrement n) k"

definition all_digits :: "string \<Rightarrow> bool" where
  "all_digits s = list_all (\<lambda>c. digit_value c \<noteq> None) s"

text \<open>The ids that a tracker result issued, and the ids of the stored rows.\<close>

definition newIds :: "BalloonDataPoint list \<Rightarrow> string list" where
  "newIds out = map id_b (filter (\<lambda>b. status b = New) out)"

definition storedIds :: "store \<Rightarrow> string list" where
  "storedIds db = map (\<lambda>r. fst (fst r)) (tracked_balloons db)"

text \<open>
  What the process does between a start and a reset of the tracker: a call of
  \<open>trackBalloons\<close>, or anything else, which may change the state in any way but does not
  lower the id counter (\<open>processHistoricalData\<close> raises it above the ids that it loads
  from the database).
\<close>

datatype process_op =
    Track "BalloonDataPoint list" "BalloonDataPoint list" history_map
  | Other "world \<Rightarrow> world"

text \<open>A list of such operations: the ids issued in the order of issue, and the state they leave.\<close>

fun runOps ::
  "(real list list \<Rightarrow> (nat \<times> nat) list) \<Rightarrow> process_op list \<Rightarrow> world \<Rightarrow> string list \<times> world" where
  "runOps munkres [] w = ([], w)"
| "runOps munkres (Track currentData previousData h # ops) w =
     (let res = trackBalloons munkres currentData previousData h w;
          rest = runOps munkres ops (snd res)
      in (newIds (fst res) @ fst rest, snd rest))"
| "runOps munkres (Other f # ops) w =
     runOps munkres ops ((f w)\<lparr>w_nextId := max (w_nextId w) (w_nextId (f w))\<rparr>)"

definition issuedBy :: "(real list list \<Rightarrow> (nat \<times> nat) list) \<Rightarrow> process_op list \<Rightarrow> world \<Rightarrow> string list" where
  "issuedBy munkres ops w = fst (runOps munkres ops w)"

definition counterAfter :: "(real list list \<Rightarrow> (nat \<times> nat) list) \<Rightarrow> process_op list \<Rightarrow> world \<Rightarrow> int" where
  "counterAfter munkres ops w = w_nextId (snd (runOps munkres ops w))"

subsection \<open>The persistence formula in the words of the specification\<close>

text \<open>
  Section 4.6 of the specification: persistence displaces a position along a speed and a
  heading for one hour, and displacement uses the spherical forward formula with
  R = 6371 km. The formula, for a start in degrees, a distance in kilometres and a bearing
  in degrees clockwise from north: with the angular distance \<open>d = distance / R\<close>, the new
  latitude is the arc sine of \<open>sin lat cos d + cos lat sin d cos bearing\<close>, and the
  longitude grows by the angle of the point with ordinate \<open>sin bearing sin d cos lat\<close> and
  abscissa \<open>cos d - sin lat sin lat'\<close>.
\<close>

definition spec_forward :: "real \<Rightarrow> real \<Rightarrow> real \<Rightarrow> real \<Rightarrow> real \<times> real" where
  "spec_forward lat lon distance bearing =
     (let phi = lat * pi / 180;
          lam = lon * pi / 180;
          theta = bearing * pi / 180;
          delta = distance / 6371;
          phi' = arcsin (sin phi * cos delta + cos phi * sin delta * cos theta);
          lam' = lam + atan2 (sin theta * sin delta * cos phi) (cos delta - sin phi * sin phi')
      in (phi' * 180 / pi, lam' * 180 / pi))"

text \<open>
  One hour of a trajectory generated by that formula: \<open>p\<close> is a position (its latitude
  lies between -90 and 90) that carries the speed and the heading along which it is
  displaced, \<open>q\<close> lies where the formula puts \<open>p\<close> after one hour at that speed and
  heading, and \<open>q\<close> is one hour later.
\<close>

definition spec_persistence_step :: "BalloonDataPoint \<Rightarrow> BalloonDataPoint \<Rightarrow> bool" where
  "spec_persistence_step p q =
     (case (speed_kmh p, direction_deg p) of
        (Some speed, Some heading) \<Rightarrow>
          - 90 \<le> latitude p \<and> latitude p \<le> 90 \<and>
          (latitude q, longitude q) = spec_forward (latitude p) (longitude p) (speed * 1) heading \<and>
          timestamp q = timestamp p + hourMs
      | _ \<Rightarrow> False)"

text \<open>A trajectory of hourly positions generated by the formula: every hour of it is such a step.\<close>

fun spec_persistence_trajectory :: "BalloonDataPoint list \<Rightarrow> bool" where
  "spec_persistence_trajectory (p # q # rest) =
     (spec_persistence_step p q \<and> spec_persistence_trajectory (q # rest))"
| "spec_persistence_trajectory _ = True"

subsection \<open>Concrete inputs\<close>

text \<open>A host that runs on UTC.\<close>

definition utcZone :: time_zone where
  "utcZone = \<lparr>tz_ofInstant = (\<lambda>t. 0), tz_ofLocal = (\<lambda>t. 0)\<rparr>"

text \<open>A process that has just started on an empty database.\<close>

definition emptyWorld :: world where
  "emptyWorld =
     \<lparr>w_db = \<lparr>balloon_snapshots = [], tracked_balloons = []\<rparr>, w_timeZone = utcZone, w_nextId = 1,
      w_processedDataCache = [], w_cacheTimestamp = None, w_cacheCreatedAt = 0,
      w_balloonHistory = [], w_lastUpdateTimestamp = None, w_autoUpdateEnabled = True\<rparr>"

text \<open>An upstream response with one valid observation.\<close>

definition feedOne :: upstream where
  "feedOne = HttpResponse 200 (JArr [JArr [JNum (Num 10), JNum (Num 20), JNum (Num 15)]])"

text \<open>An assignment solver that assigns nothing; the concrete runs never reach phase 2.\<close>

definition noAssignment :: "real list list \<Rightarrow> (nat \<times> nat) list" where
  "noAssignment matrix = []"

definition pointAt :: "string \<Rightarrow> real \<Rightarrow> real \<Rightarrow> real \<Rightarrow> int \<Rightarrow> BalloonDataPoint" where
  "pointAt ident lat lon alt ts =
     \<lparr>id_b = ident, latitude = lat, longitude = lon, altitude_km = alt, timestamp = ts,
      hour_offset = 0, speed_kmh = None, direction_deg = None, confidence = 1, status = Active\<rparr>"

text \<open>A balloon on the equator that moves east at 100 km/h.\<close>

definition eastbound :: BalloonDataPoint where
  "eastbound = (pointAt ''balloon_0001'' 0 0 15 0)\<lparr>speed_kmh := Some 100, direction_deg := Some 90\<rparr>"

text \<open>
  Scenario S4: six hourly positions on the equator, 100 km apart from west to east, each
  with speed 100 km/h and heading 90. An arc of 100 km on a sphere of radius 6371 km spans
  \<open>100 / 6371\<close> radians of longitude.
\<close>

definition eastPoint :: "nat \<Rightarrow> BalloonDataPoint" where
  "eastPoint k =
     (pointAt ''balloon_0001'' 0 (real k * (100 / 6371 * (180 / pi))) 15 (int k * 3600000))
       \<lparr>speed_kmh := Some 100, direction_deg := Some 90\<rparr>"

definition straightLine :: "BalloonDataPoint list" where
  "straightLine = [eastPoint 0, eastPoint 1, eastPoint 2, eastPoint 3, eastPoint 4, eastPoint 5]"

text \<open>A wind provider that cannot be reached, and a Wind Client that has done nothing yet.\<close>

definition offline :: "meteo_request \<Rightarrow> meteo_response" where
  "offline request = Rejected None"

definition freshWind :: wind_world where
  "freshWind = \<lparr>ww_cache = [], ww_trace = []\<rparr>"

text \<open>The confidence of hour \<open>k\<close> in the words of the specification.\<close>

definition confidenceAtHour :: "nat \<Rightarrow> real" where
  "confidenceAtHour k = max 0.2 (0.8 - 0.15 * real k)"

text \<open>
  A tracked balloon on the equator that moved due north at 100 km/h in the last hour, and
  an observation one degree south of it an hour later.
\<close>

definition northbound :: BalloonDataPoint where
  "northbound = (pointAt ''balloon_0001'' 0 0 15 0)\<lparr>speed_kmh := Some 100, direction_deg := Some 0\<rparr>"

definition southObs :: BalloonDataPoint where
  "southObs = pointAt ''temp_0_0'' (- 1) 0 15 3600000"

text \<open>A location at sea level, asked for the hour 0.\<close>

definition seaLevel :: wind_location where
  "seaLevel = \<lparr>loc_latitude = 0, loc_longitude = 0, loc_altitude_km = 0, loc_timestamp = Some 0\<rparr>"

text \<open>A provider that answers every request with one location and one hour of wind.\<close>

definition calm :: "meteo_request \<Rightarrow> meteo_response" where
  "calm request =
     Resolved [Some \<lparr>mh_time = [0], mh_wind_speed = Some [Some 36], mh_wind_direction = Some [Some 0]\<rparr>]"

text \<open>A wind vector for that place and hour, and a Wind Client whose cache holds it.\<close>

definition cachedVector :: WindData where
  "cachedVector = \<lparr>wd_latitude = 0, wd_longitude = 0, wd_altitude_km = 0, wd_pressure_hpa = 1000,
     wd_wind_u_ms = 0, wd_wind_v_ms = - 20, wd_wind_speed_kmh = 72, wd_wind_direction_deg = 0,
     wd_timestamp = 0\<rparr>"

definition warmWind :: wind_world where
  "warmWind = \<lparr>ww_cache = setWindCache cachedVector [], ww_trace = []\<rparr>"

text \<open>A database that holds one tracked row, of the balloon \<open>ident\<close> at hour 0.\<close>

definition storeOf :: "string \<Rightarrow> world" where
  "storeOf ident = emptyWorld\<lparr>w_db := \<lparr>balloon_snapshots = [],
      tracked_balloons = [((ident, 0),
         \<lparr>row_lat = 50, row_lon = 50, row_alt = 15, row_speed_kmh = None,
          row_direction_deg = None, row_status = New, row_hour_offset = 0\<rparr>)]\<rparr>\<rparr>"

definition storeSeven :: world where
  "storeSeven = storeOf ''balloon_0007''"

text \<open>A database whose largest id is two below \<open>2 ^ 53 = 9007199254740992\<close>.\<close>

definition storeNearLimit :: world where
  "storeNearLimit = storeOf ''balloon_9007199254740990''"

text \<open>One observation, and a call of the tracker for it with no previous balloons.\<close>

definition oneObs :: BalloonDataPoint where
  "oneObs = pointAt ''temp_0_0'' 0 0 15 3600000"

definition firstHourCall :: process_op where
  "firstHourCall = Track [oneObs] [] Map.empty"

section \<open>Theorems\<close>

lemma validEntry_arr3:
  "validEntry (JArr [a, b, c]) = spec_valid (JArr [a, b, c])"
proof (cases a; cases b; cases c)
  fix lat lon alt
  assume "a = JNum lat" "b = JNum lon" "c = JNum alt"
  then show ?thesis
    by (cases lat; cases lon; cases alt) simp_all
qed simp_all

lemma validEntry_spec_valid: "validEntry e = spec_valid e"
proof (cases e)
  case (JArr xs)
  show ?thesis
  proof (cases xs)
    case Nil
    with JArr show ?thesis by simp
  next
    case (Cons a ys)
    note ys = this
    show ?thesis
    proof (cases ys)
      case Nil
      with JArr ys show ?thesis by simp
    next
      case (Cons b zs)
      note zs = this
      show ?thesis
      proof (cases zs)
        case Nil
        with JArr ys zs show ?thesis by simp
      next
        case (Cons c ws)
        show ?thesis
        proof (cases ws)
          case Nil
          with JArr ys zs Cons show ?thesis by (simp only: validEntry_arr3)
        next
          case (Cons d vs)
          with JArr ys zs \<open>zs = c # ws\<close> show ?thesis by simp
        qed
      qed
    qed
  qed
qed simp_all

text \<open>
  C3. For every upstream response \<open>fetchHourData\<close> returns exactly the entries that are
  3-element arrays of finite numbers within the latitude, longitude and altitude ranges,
  when the status is 2xx and the body is an array; on every other outcome it returns the
  empty list. It returns a list in every case: no exception leaves it.
\<close>

theorem fetchHourData_filters: "fetchHourData up = spec_fetch_hour up"
proof (cases up)
  case NetworkError
  then show ?thesis by (simp add: fetchHourData_def)
next
  case (HttpResponse status body)
  then show ?thesis
    by (cases body) (auto simp: fetchHourData_def validEntry_spec_valid cong: filter_cong)
qed

text \<open>
  C10 (as the code has it). The service is healthy exactly when the data age is between
  0 and 65 minutes inclusive, degraded exactly when it is above 65 and at most 90, and
  unhealthy otherwise: above 90, or negative (the age is -1 while no update has been
  recorded).
\<close>

theorem healthStatus_classes:
  "(healthStatus age = Healthy) = (0 \<le> age \<and> age \<le> 65) \<and>
   (healthStatus age = Degraded) = (65 < age \<and> age \<le> 90) \<and>
   (healthStatus age = Unhealthy) = (age < 0 \<or> 90 < age)"
  by (simp add: healthStatus_def)

text \<open>
  C10 as stated fails at an age of exactly 65 minutes, which the code classifies as
  healthy although 65 < 65 is false, and at the age -1 reported before the first update,
  which is below 65 and classified as unhealthy.
\<close>

theorem healthStatus_counterexample:
  "healthStatus 65 = Healthy \<and> \<not> ((65::int) < 65) \<and>
   healthStatus (getDataAgeMinutes None 0) = Unhealthy \<and> getDataAgeMinutes None 0 < 65"
  by (simp add: healthStatus_def getDataAgeMinutes_def)

subsection \<open>The tracker: matched rows, new rows and the id counter\<close>

lemma addMatch_tracked:
  "ms_tracked (addMatch cur prev cost currIdx ms) =
     ms_tracked ms @ [cur\<lparr>id_b := id_b prev, speed_kmh := Some (fst (calculateVelocity prev cur)),
        direction_deg := Some (snd (calculateVelocity prev cur)),
        confidence := max 0.3 (exp (- (cost / 100) * 2)), status := Active\<rparr>]"
  by (simp add: addMatch_def Let_def)

lemma addMatch_active:
  "list_all (\<lambda>b. status b = Active) (ms_tracked ms) \<Longrightarrow>
   list_all (\<lambda>b. status b = Active) (ms_tracked (addMatch cur prev cost currIdx ms))"
  by (simp add: addMatch_tracked)

lemma greedyStep_active:
  "list_all (\<lambda>b. status b = Active) (ms_tracked ms) \<Longrightarrow>
   list_all (\<lambda>b. status b = Active) (ms_tracked (greedyStep cd cpc i ms))"
  by (auto simp: greedyStep_def Let_def addMatch_tracked split: list.splits)

lemma hungarianStep_active:
  "list_all (\<lambda>b. status b = Active) (ms_tracked ms) \<Longrightarrow>
   list_all (\<lambda>b. status b = Active) (ms_tracked (hungarianStep cd pd cf um mx ij ms))"
  by (auto simp: hungarianStep_def Let_def addMatch_tracked)

lemma fold_active:
  assumes "\<And>x ms. list_all (\<lambda>b. status b = Active) (ms_tracked ms) \<Longrightarrow>
             list_all (\<lambda>b. status b = Active) (ms_tracked (f x ms))"
  shows "list_all (\<lambda>b. status b = Active) (ms_tracked ms) \<Longrightarrow>
         list_all (\<lambda>b. status b = Active) (ms_tracked (fold f xs ms))"
  by (induction xs arbitrary: ms) (auto intro: assms)

lemma matchPhases_active:
  "list_all (\<lambda>b. status b = Active) (ms_tracked (matchPhases munkres cd pd h))"
proof -
  let ?ms0 = "\<lparr>ms_tracked = [], ms_matchedPrevIds = {}, ms_matchedCurrIndices = {},
                   ms_conflictingCurrIndices = []\<rparr>"
  let ?cpc = "map (candidatesOf pd h) cd"
  have a: "list_all (\<lambda>b. status b = Active) (ms_tracked (fold (greedyStep cd ?cpc) [0..<length cd] ?ms0))"
    by (rule fold_active) (auto intro: greedyStep_active)
  show ?thesis
    unfolding matchPhases_def Let_def hungarianPhase_def
    using a by (auto intro!: fold_active hungarianStep_active)
qed

lemma fold_assignNew:
  "fold (assignNewStep cd matched) is (acc, n) =
     (acc @ mintRows 0.5 (map ((!) cd) (filter (\<lambda>i. i \<notin> matched) is)) n,
      (jsIncrement ^^ length (filter (\<lambda>i. i \<notin> matched) is)) n)"
proof (induction "is" arbitrary: acc n)
  case Nil
  then show ?case by simp
next
  case (Cons i "is")
  show ?case
  proof (cases "i \<in> matched")
    case True
    then show ?thesis using Cons.IH[of acc n] by (simp add: assignNewStep_def)
  next
    case False
    then show ?thesis
      using Cons.IH[of "acc @ [(cd ! i)\<lparr>id_b := balloonId n, status := New, confidence := 0.5\<rparr>]"
          "jsIncrement n"]
      by (simp add: assignNewStep_def funpow_swap1)
  qed
qed

lemma fold_firstHour:
  "fold firstHourStep bs (acc, n) = (acc @ mintRows 1 bs n, (jsIncrement ^^ length bs) n)"
proof (induction bs arbitrary: acc n)
  case Nil
  then show ?case by simp
next
  case (Cons b bs)
  show ?case
    using Cons.IH[of "acc @ [b\<lparr>id_b := balloonId n, status := New, confidence := 1\<rparr>]" "jsIncrement n"]
    by (simp add: firstHourStep_def funpow_swap1)
qed

lemma mintRows_ids: "map id_b (mintRows c bs n) = map balloonId (counterValues n (length bs))"
  by (induction bs arbitrary: n) simp_all

lemma mintRows_new: "list_all (\<lambda>b. status b = New) (mintRows c bs n)"
  by (induction bs arbitrary: n) simp_all

lemma mintRows_length: "length (mintRows c bs n) = length bs"
  by (induction bs arbitrary: n) simp_all

lemma filter_new_active:
  "list_all (\<lambda>b. status b = Active) xs \<Longrightarrow> filter (\<lambda>b. status b = New) xs = []"
  by (induction xs) auto

lemma filter_new_new:
  "list_all (\<lambda>b. status b = New) xs \<Longrightarrow> filter (\<lambda>b. status b = New) xs = xs"
  by (induction xs) auto

lemma filter_active_active:
  "list_all (\<lambda>b. status b = Active) xs \<Longrightarrow> filter (\<lambda>b. status b = Active) xs = xs"
  by (induction xs) auto

lemma filter_active_new:
  "list_all (\<lambda>b. status b = New) xs \<Longrightarrow> filter (\<lambda>b. status b = Active) xs = []"
  by (induction xs) auto

text \<open>The balloons of \<open>currentData\<close> that phases 1 and 2 leave without a match.\<close>

lemma trackBalloons_rows:
  "fst (trackBalloons munkres cd pd h w) =
     (if pd = [] then mintRows 1 cd (w_nextId w)
      else ms_tracked (matchPhases munkres cd pd h) @
           mintRows 0.5
             (map ((!) cd) (filter (\<lambda>i. i \<notin> ms_matchedCurrIndices (matchPhases munkres cd pd h))
                                [0..<length cd]))
             (w_nextId w))"
  by (simp add: trackBalloons_def Let_def fold_assignNew fold_firstHour)

lemma trackBalloons_matched:
  "filter (\<lambda>b. status b = Active) (fst (trackBalloons munkres cd pd h w)) =
     (if pd = [] then [] else ms_tracked (matchPhases munkres cd pd h))"
  by (simp add: trackBalloons_rows filter_active_active[OF matchPhases_active]
      filter_active_new[OF mintRows_new])

lemma trackBalloons_new_rows:
  "filter (\<lambda>b. status b = New) (fst (trackBalloons munkres cd pd h w)) =
     (if pd = [] then mintRows 1 cd (w_nextId w)
      else mintRows 0.5
             (map ((!) cd) (filter (\<lambda>i. i \<notin> ms_matchedCurrIndices (matchPhases munkres cd pd h))
                                [0..<length cd]))
             (w_nextId w))"
  by (simp add: trackBalloons_rows filter_new_active[OF matchPhases_active]
      filter_new_new[OF mintRows_new])

lemma trackBalloons_new_count:
  "length (newIds (fst (trackBalloons munkres cd pd h w))) =
     (if pd = [] then length cd
      else length (filter (\<lambda>i. i \<notin> ms_matchedCurrIndices (matchPhases munkres cd pd h))
                     [0..<length cd]))"
  by (simp add: newIds_def trackBalloons_new_rows mintRows_length)

lemma trackBalloons_new_le:
  "length (newIds (fst (trackBalloons munkres cd pd h w))) \<le> length cd"
proof -
  have "length (filter P [0..<length cd]) \<le> length cd" for P
    using length_filter_le[of P "[0..<length cd]"] by simp
  then show ?thesis by (simp add: trackBalloons_new_count)
qed

lemma trackBalloons_new_ids:
  "newIds (fst (trackBalloons munkres cd pd h w)) =
     map balloonId (counterValues (w_nextId w) (length (newIds (fst (trackBalloons munkres cd pd h w)))))"
  unfolding trackBalloons_new_count
  by (simp add: newIds_def trackBalloons_new_rows mintRows_ids)

lemma trackBalloons_counter:
  "w_nextId (snd (trackBalloons munkres cd pd h w)) =
     (jsIncrement ^^ length (newIds (fst (trackBalloons munkres cd pd h w)))) (w_nextId w)"
  unfolding trackBalloons_new_count
  by (simp add: trackBalloons_def Let_def fold_assignNew fold_firstHour)

lemma trackBalloons_effects:
  "w_db (snd (trackBalloons munkres cd pd h w)) =
     (if pd = [] then w_db w else saveTrackedBalloons (fst (trackBalloons munkres cd pd h w)) (w_db w))"
  by (simp add: trackBalloons_def Let_def)

lemma trackBalloons_reads_counter:
  "fst (trackBalloons munkres cd pd h w) = fst (trackBalloons munkres cd pd h (v\<lparr>w_nextId := w_nextId w\<rparr>))"
  by (simp add: trackBalloons_rows)

subsection \<open>The counter within the integers that a double holds exactly\<close>

lemma jsIncrement_exact: "- (2 ^ 53) \<le> n \<Longrightarrow> n < 2 ^ 53 \<Longrightarrow> jsIncrement n = n + 1"
  by (simp add: jsIncrement_def)

lemma counterValues_exact:
  "- (2 ^ 53) \<le> n \<Longrightarrow> n + int k \<le> 2 ^ 53 \<Longrightarrow> counterValues n k = [n..n + int k - 1]"
proof (induction k arbitrary: n)
  case 0
  then show ?case by simp
next
  case (Suc k)
  then have e: "jsIncrement n = n + 1" by (intro jsIncrement_exact) simp_all
  have "counterValues (n + 1) k = [n + 1..n + 1 + int k - 1]"
    using Suc.prems by (intro Suc.IH) simp_all
  then show ?case
    using upto_rec1[of n "n + int (Suc k) - 1"] by (simp add: e)
qed

lemma jsIncrement_ge: "n \<le> jsIncrement n"
  by (simp add: jsIncrement_def)

lemma funpow_ge: "n \<le> (jsIncrement ^^ k) n"
proof (induction k)
  case 0
  then show ?case by simp
next
  case (Suc k)
  then show ?case using jsIncrement_ge[of "(jsIncrement ^^ k) n"] by simp
qed

text \<open>A counter that is below \<open>2 ^ 53\<close> after \<open>k\<close> increments has grown by \<open>k\<close>.\<close>

lemma funpow_below:
  "- (2 ^ 53) \<le> n \<Longrightarrow> (jsIncrement ^^ k) n < 2 ^ 53 \<Longrightarrow>
   n + int k < 2 ^ 53 \<and> (jsIncrement ^^ k) n = n + int k"
proof (induction k)
  case 0
  then show ?case by simp
next
  case (Suc k)
  have "(jsIncrement ^^ k) n \<le> (jsIncrement ^^ Suc k) n"
    using jsIncrement_ge[of "(jsIncrement ^^ k) n"] by simp
  then have "(jsIncrement ^^ k) n < 2 ^ 53" using Suc.prems(2) by linarith
  then have ih: "n + int k < 2 ^ 53" "(jsIncrement ^^ k) n = n + int k"
    using Suc.IH Suc.prems(1) by simp_all
  have "jsIncrement (n + int k) = n + int k + 1"
    using ih(1) Suc.prems(1) by (intro jsIncrement_exact) simp_all
  then have e: "(jsIncrement ^^ Suc k) n = n + int (Suc k)" using ih(2) by simp
  then show ?case using Suc.prems(2) by simp
qed

lemma runOps_counter_mono: "w_nextId w \<le> w_nextId (snd (runOps munkres ops w))"
proof (induction munkres ops w rule: runOps.induct)
  case (1 munkres w)
  then show ?case by simp
next
  case (2 munkres cd pd h ops w)
  have "w_nextId w \<le> w_nextId (snd (trackBalloons munkres cd pd h w))"
    unfolding trackBalloons_counter by (rule funpow_ge)
  then show ?case using 2 by (simp add: Let_def)
next
  case (3 munkres f ops w)
  then show ?case by simp
qed

text \<open>
  While the counter stays below \<open>2 ^ 53\<close>, the ids issued are made from strictly
  increasing counter values between the first and the last value of the counter.
\<close>

lemma runOps_ids:
  "- (2 ^ 53) \<le> w_nextId w \<Longrightarrow> w_nextId (snd (runOps munkres ops w)) < 2 ^ 53 \<Longrightarrow>
   \<exists>ks. fst (runOps munkres ops w) = map balloonId ks \<and> sorted_wrt (<) ks \<and>
        (\<forall>k \<in> set ks. w_nextId w \<le> k \<and> k < w_nextId (snd (runOps munkres ops w)))"
proof (induction munkres ops w rule: runOps.induct)
  case (1 munkres w)
  then show ?case by simp
next
  case (2 munkres cd pd h ops w)
  let ?r = "trackBalloons munkres cd pd h w"
  let ?n = "w_nextId w"
  let ?k = "length (newIds (fst ?r))"
  let ?c = "w_nextId (snd (runOps munkres ops (snd ?r)))"
  have final: "?c < 2 ^ 53" using "2.prems"(2) by (simp add: Let_def)
  have after: "w_nextId (snd ?r) = (jsIncrement ^^ ?k) ?n" by (rule trackBalloons_counter)
  have "w_nextId (snd ?r) \<le> ?c" by (rule runOps_counter_mono)
  then have "(jsIncrement ^^ ?k) ?n < 2 ^ 53" using final after by linarith
  then have k: "?n + int ?k < 2 ^ 53" "(jsIncrement ^^ ?k) ?n = ?n + int ?k"
    using funpow_below[OF "2.prems"(1)] by simp_all
  have first: "newIds (fst ?r) = map balloonId [?n..?n + int ?k - 1]"
    using trackBalloons_new_ids[of munkres cd pd h w] counterValues_exact[OF "2.prems"(1), of ?k] k(1)
    by simp
  have lo': "- (2 ^ 53) \<le> w_nextId (snd ?r)" using "2.prems"(1) after k(2) by simp
  obtain ks where ks: "fst (runOps munkres ops (snd ?r)) = map balloonId ks" "sorted_wrt (<) ks"
      "\<forall>j \<in> set ks. w_nextId (snd ?r) \<le> j \<and> j < ?c"
    using "2.IH"[OF refl lo' final] by blast
  have "fst (runOps munkres (Track cd pd h # ops) w) = map balloonId ([?n..?n + int ?k - 1] @ ks)"
    using first ks(1) by (simp add: Let_def)
  moreover have "sorted_wrt (<) ([?n..?n + int ?k - 1] @ ks)"
    using ks(2,3) after k(2) by (auto simp: sorted_wrt_append strict_sorted_iff)
  moreover have "\<forall>j \<in> set ([?n..?n + int ?k - 1] @ ks).
      ?n \<le> j \<and> j < w_nextId (snd (runOps munkres (Track cd pd h # ops) w))"
    using ks(3) after k(2) runOps_counter_mono[of "snd ?r" munkres ops]
    by (auto simp: Let_def)
  ultimately show ?case by blast
next
  case (3 munkres f ops w)
  let ?w = "(f w)\<lparr>w_nextId := max (w_nextId w) (w_nextId (f w))\<rparr>"
  have "- (2 ^ 53) \<le> w_nextId ?w" using "3.prems"(1) by simp
  moreover have "w_nextId (snd (runOps munkres ops ?w)) < 2 ^ 53" using "3.prems"(2) by simp
  ultimately obtain ks where ks: "fst (runOps munkres ops ?w) = map balloonId ks" "sorted_wrt (<) ks"
      "\<forall>j \<in> set ks. w_nextId ?w \<le> j \<and> j < w_nextId (snd (runOps munkres ops ?w))"
    using "3.IH" by blast
  then show ?case by (intro exI[of _ ks]) auto
qed

subsection \<open>Balloon ids are read back as the number they were made from\<close>

lemma digit_value_digit_char: "d < 10 \<Longrightarrow> digit_value (digit_char d) = Some d"
proof -
  assume "d < 10"
  then have "d = 0 \<or> d = 1 \<or> d = 2 \<or> d = 3 \<or> d = 4 \<or> d = 5 \<or> d = 6 \<or> d = 7 \<or>
    d = 8 \<or> d = 9" by auto
  then consider "d = 0" | "d = 1" | "d = 2" | "d = 3" | "d = 4" | "d = 5" | "d = 6" | "d = 7"
    | "d = 8" | "d = 9" by blast
  then show ?thesis
    by cases (simp_all add: digit_value_def digit_char_def)
qed

lemma parseDigits_append:
  "all_digits xs \<Longrightarrow> parseDigits acc (xs @ ys) = parseDigits (parseDigits acc xs) ys"
  by (induction xs arbitrary: acc) (auto simp: all_digits_def)

lemma decimal_digits: "all_digits (decimal n)"
proof (induction n rule: decimal.induct)
  case (1 n)
  show ?case
  proof (cases "n < 10")
    case True
    then show ?thesis
      by (subst decimal.simps) (simp add: all_digits_def digit_value_digit_char)
  next
    case False
    then have "all_digits (decimal (n div 10))" using 1 by simp
    moreover have "digit_value (digit_char (n mod 10)) = Some (n mod 10)"
      by (rule digit_value_digit_char) simp
    ultimately show ?thesis using False
      by (subst decimal.simps) (simp add: all_digits_def)
  qed
qed

lemma decimal_nonempty: "decimal n \<noteq> []"
  by (subst decimal.simps) simp

lemma parseDigits_decimal: "parseDigits 0 (decimal n) = n"
proof (induction n rule: decimal.induct)
  case (1 n)
  show ?case
  proof (cases "n < 10")
    case True
    then show ?thesis
      by (subst decimal.simps) (simp add: digit_value_digit_char)
  next
    case False
    then have ih: "parseDigits 0 (decimal (n div 10)) = n div 10" using 1 by simp
    have d: "digit_value (digit_char (n mod 10)) = Some (n mod 10)"
      by (rule digit_value_digit_char) simp
    show ?thesis using False
      by (subst decimal.simps) (simp add: parseDigits_append[OF decimal_digits] ih d)
  qed
qed

lemma zeros_digits: "all_digits (replicate k (CHR ''0''))"
  by (simp add: all_digits_def digit_value_def list_all_iff)

lemma parseDigits_zeros: "parseDigits 0 (replicate k (CHR ''0'') @ s) = parseDigits 0 s"
  by (induction k) (simp_all add: digit_value_def)

lemma minus_no_digit: "digit_value (CHR ''-'') = None" "digit_value (CHR ''+'') = None"
  by (simp_all add: digit_value_def)

lemma space_no_digit: "sqlSpace c \<Longrightarrow> digit_value c = None"
  by (auto simp: sqlSpace_def digit_value_def)

lemma digits_no_minus: "all_digits s \<Longrightarrow> CHR ''-'' \<notin> set s"
  using minus_no_digit(1) by (auto simp: all_digits_def list_all_iff)

lemma drop_prefix: "drop 8 (''balloon_'' @ s) = s"
  by simp

text \<open>The text after the prefix: zeros, then a minus sign for a negative number, then the digits.\<close>

lemma balloonId_suffix:
  "drop 8 (balloonId n) =
     replicate (4 - length (numberToString n)) (CHR ''0'') @
     (if n < 0 then CHR ''-'' # decimal (nat (- n)) else decimal (nat n))"
  unfolding balloonId_def padStart_def drop_prefix by (simp add: numberToString_def)

lemma balloonId_sign: "(CHR ''-'' \<in> set (drop 8 (balloonId n))) = (n < 0)"
  unfolding balloonId_suffix using digits_no_minus[OF decimal_digits] by auto

lemma balloonId_nonneg: "0 \<le> n \<Longrightarrow> parseDigits 0 (drop 8 (balloonId n)) = nat n"
  unfolding balloonId_suffix by (simp add: parseDigits_zeros parseDigits_decimal)

lemma balloonId_negative:
  assumes "n < 0"
  shows "parseDigits 0 (tl (dropWhile (\<lambda>c. c \<noteq> CHR ''-'') (drop 8 (balloonId n)))) = nat (- n)"
proof -
  have "dropWhile (\<lambda>c. c \<noteq> CHR ''-'')
          (replicate (4 - length (numberToString n)) (CHR ''0'') @ CHR ''-'' # decimal (nat (- n))) =
        CHR ''-'' # decimal (nat (- n))"
    by (subst dropWhile_append2) auto
  then show ?thesis
    unfolding balloonId_suffix using assms by (simp add: parseDigits_decimal)
qed

lemma balloonId_inj: "balloonId m = balloonId n \<Longrightarrow> m = n"
proof -
  assume eq: "balloonId m = balloonId n"
  then have sign: "(m < 0) = (n < 0)" using balloonId_sign[of m] balloonId_sign[of n] by simp
  show "m = n"
  proof (cases "m < 0")
    case True
    then have "nat (- m) = nat (- n)"
      using balloonId_negative[of m] balloonId_negative[of n] sign eq by simp
    then show ?thesis using True sign by linarith
  next
    case False
    then have "nat m = nat n"
      using balloonId_nonneg[of m] balloonId_nonneg[of n] sign eq by simp
    then show ?thesis using False sign by linarith
  qed
qed

lemma likeBalloon_balloonId: "likeBalloon (balloonId n)"
proof -
  have "map asciiLower (take 7 (''balloon_'' @ s)) = ''balloon''" for s
    by (simp add: asciiLower_def)
  moreover have "length (''balloon_'' @ s) \<ge> 8" for s by simp
  ultimately show ?thesis unfolding likeBalloon_def balloonId_def by blast
qed

subsection \<open>The largest stored suffix bounds every stored id\<close>

lemma castInteger_digit_first:
  assumes "s \<noteq> []" "digit_value (hd s) \<noteq> None"
  shows "castInteger s = min (2 ^ 63 - 1) (int (parseDigits 0 s))"
proof -
  obtain c cs where s: "s = c # cs" using assms(1) by (cases s) auto
  have c: "\<not> sqlSpace c" "c \<noteq> CHR ''-''" "c \<noteq> CHR ''+''"
    using assms(2) space_no_digit[of c] minus_no_digit by (auto simp: s)
  then show ?thesis by (simp add: castInteger_def s Let_def)
qed

lemma castInteger_minus_first:
  "castInteger (CHR ''-'' # s) = max (- (2 ^ 63)) (- int (parseDigits 0 s))"
  by (simp add: castInteger_def sqlSpace_def Let_def)

lemma parseDigits_stop:
  "parseDigits 0 (replicate (Suc k) (CHR ''0'') @ CHR ''-'' # s) = 0"
proof -
  have "parseDigits 0 (replicate (Suc k) (CHR ''0'') @ CHR ''-'' # s) = parseDigits 0 (CHR ''-'' # s)"
    by (rule parseDigits_zeros)
  then show ?thesis by (simp add: minus_no_digit)
qed

lemma cast_balloonId:
  assumes "- (2 ^ 63) \<le> n" "n < 2 ^ 63"
  shows "n \<le> castInteger (drop 8 (balloonId n))"
proof (cases "n < 0")
  case False
  let ?s = "replicate (4 - length (numberToString n)) (CHR ''0'') @ decimal (nat n)"
  have ne: "?s \<noteq> []" using decimal_nonempty by simp
  have "all_digits ?s" using zeros_digits decimal_digits by (simp add: all_digits_def)
  then have "digit_value (hd ?s) \<noteq> None" using ne by (cases ?s) (auto simp: all_digits_def)
  then have "castInteger ?s = min (2 ^ 63 - 1) (int (parseDigits 0 ?s))"
    by (rule castInteger_digit_first[OF ne])
  also have "\<dots> = min (2 ^ 63 - 1) n"
    using False by (simp add: parseDigits_zeros parseDigits_decimal)
  finally show ?thesis using False assms(2) by (simp add: balloonId_suffix)
next
  case True
  show ?thesis
  proof (cases "4 - length (numberToString n)")
    case 0
    then show ?thesis
      using True assms(1) by (simp add: balloonId_suffix castInteger_minus_first parseDigits_decimal)
  next
    case (Suc k)
    let ?s = "replicate (Suc k) (CHR ''0'') @ CHR ''-'' # decimal (nat (- n))"
    have "castInteger ?s = min (2 ^ 63 - 1) (int (parseDigits 0 ?s))"
      by (rule castInteger_digit_first) (simp_all add: digit_value_def)
    then have "castInteger ?s = 0" unfolding parseDigits_stop by simp
    then show ?thesis using True Suc by (simp add: balloonId_suffix)
  qed
qed

lemma fold_max_ge: "(v::int) \<le> fold max vs v"
  by (induction vs arbitrary: v) (auto intro: order_trans[OF max.cobounded2])

lemma fold_max_mem: "(x::int) \<in> set vs \<Longrightarrow> x \<le> fold max vs v"
proof (induction vs arbitrary: v)
  case Nil
  then show ?case by simp
next
  case (Cons a vs)
  show ?case
  proof (cases "x = a")
    case True
    have "max a v \<le> fold max vs (max a v)" by (rule fold_max_ge)
    then show ?thesis using True by simp
  next
    case False
    then show ?thesis using Cons by simp
  qed
qed

lemma bitLength_bounds: "0 < m \<Longrightarrow> 2 ^ (bitLength m - 1) \<le> m \<and> m < 2 ^ bitLength m"
proof (induction m rule: bitLength.induct)
  case (1 n)
  show ?case
  proof (cases "n div 2 = 0")
    case True
    then have "n = Suc 0" using 1(2) by linarith
    then show ?thesis by (simp add: bitLength.simps[of "Suc 0"] bitLength.simps[of 0])
  next
    case False
    then have ih: "2 ^ (bitLength (n div 2) - 1) \<le> n div 2" "n div 2 < 2 ^ bitLength (n div 2)"
      using 1 by simp_all
    have pos: "0 < bitLength (n div 2)" using False by (simp add: bitLength.simps[of "n div 2"])
    have b: "bitLength n = Suc (bitLength (n div 2))" using 1(2) by (simp add: bitLength.simps[of n])
    have "(2::nat) ^ bitLength (n div 2) = 2 * 2 ^ (bitLength (n div 2) - 1)"
      using pos by (cases "bitLength (n div 2)") simp_all
    moreover have "2 * (n div 2) \<le> n" "n < 2 * (n div 2) + 2" by arith+
    ultimately have lo: "2 ^ bitLength (n div 2) \<le> n" and hi: "n < 2 * 2 ^ bitLength (n div 2)"
      using ih by linarith+
    show ?thesis using lo hi by (simp add: b)
  qed
qed

lemma toDouble_large:
  assumes "2 ^ 53 \<le> n"
  shows "2 ^ 53 \<le> toDouble n"
proof -
  define m where "m = nat \<bar>n\<bar>"
  define l where "l = bitLength m"
  define u where "u = (2::nat) ^ (l - 53)"
  define q where "q = m div u"
  have m: "(2::nat) ^ 53 \<le> m" using assms by (simp add: m_def nat_le_iff)
  then have mpos: "0 < m" by (simp add: order.strict_trans2[OF _ m])
  have b: "2 ^ (l - 1) \<le> m" "m < 2 ^ l" using bitLength_bounds[OF mpos] by (simp_all add: l_def)
  have l: "54 \<le> l"
  proof (rule ccontr)
    assume "\<not> 54 \<le> l"
    then have "l \<le> 53" by simp
    then have "(2::nat) ^ l \<le> 2 ^ 53" by (intro power_increasing) simp_all
    then show False using b(2) m by linarith
  qed
  have split: "(2::nat) ^ (l - 1) = 2 ^ 52 * u"
  proof -
    have "l - 1 = 52 + (l - 53)" using l by simp
    then show ?thesis by (simp only: u_def power_add)
  qed
  have upos: "0 < u" by (simp add: u_def)
  have "2 ^ 52 \<le> q"
  proof -
    have "2 ^ 52 * u div u \<le> m div u" using b(1) by (simp only: split div_le_mono)
    then show ?thesis using upos by (simp add: q_def)
  qed
  then have qu: "2 ^ 52 * u \<le> q * u" by simp
  have "(2::nat) ^ 53 \<le> 2 ^ (l - 1)" using l by (intro power_increasing) simp_all
  then have big: "2 ^ 53 \<le> q * u" using qu split by linarith
  have "q * u \<le> (if 2 * (m mod u) < u \<or> 2 * (m mod u) = u \<and> even q then q else q + 1) * u"
    by simp
  then have "2 ^ 53 \<le> (if 2 * (m mod u) < u \<or> 2 * (m mod u) = u \<and> even q then q else q + 1) * u"
    using big by linarith
  then have "(2::int) ^ 53 \<le> int ((if 2 * (m mod u) < u \<or> 2 * (m mod u) = u \<and> even q then q else q + 1) * u)"
    by (metis of_nat_le_iff of_nat_numeral of_nat_power)
  moreover have "sgn n = 1" using assms by (simp add: order.strict_trans2[OF _ assms])
  moreover have "\<not> \<bar>n\<bar> < 2 ^ 53" using assms by simp
  ultimately show ?thesis
    unfolding toDouble_def Let_def m_def[symmetric] l_def[symmetric] u_def[symmetric] q_def[symmetric]
    by simp
qed

lemma toDouble_ge:
  assumes "- (2 ^ 53) \<le> toDouble x" "toDouble x < 2 ^ 53"
  shows "x \<le> toDouble x"
proof (cases "\<bar>x\<bar> < 2 ^ 53")
  case True
  then show ?thesis by (simp add: toDouble_def)
next
  case False
  then consider "2 ^ 53 \<le> x" | "x \<le> - (2 ^ 53)" by linarith
  then show ?thesis
  proof cases
    case 1
    then show ?thesis using toDouble_large[OF 1] assms(2) by simp
  next
    case 2
    then show ?thesis using assms(1) by simp
  qed
qed

lemma stored_id_le_max:
  assumes r: "r \<in> set (tracked_balloons db)" and id: "fst (fst r) = balloonId k"
    and k: "- (2 ^ 63) \<le> k" "k < 2 ^ 63"
    and m: "- (2 ^ 53) \<le> getMaxBalloonId db" "getMaxBalloonId db < 2 ^ 53"
  shows "k \<le> getMaxBalloonId db"
proof -
  let ?vs = "map (\<lambda>r. castInteger (drop 8 (fst (fst r))))
               (filter (\<lambda>r. likeBalloon (fst (fst r))) (tracked_balloons db))"
  have mem: "castInteger (drop 8 (balloonId k)) \<in> set ?vs"
    using r id likeBalloon_balloonId[of k] by force
  then obtain v vs where vs: "?vs = v # vs" by (cases ?vs) auto
  have g: "getMaxBalloonId db = toDouble (fold max vs v)"
    by (simp add: getMaxBalloonId_def vs Let_def)
  have "castInteger (drop 8 (balloonId k)) \<le> fold max vs v"
    using mem fold_max_ge[of v vs] fold_max_mem[of _ vs v] unfolding vs by auto
  moreover have "fold max vs v \<le> toDouble (fold max vs v)"
    using m by (intro toDouble_ge) (simp_all add: g)
  ultimately show ?thesis using cast_balloonId[OF k] by (simp add: g)
qed

subsection \<open>Runs on concrete inputs\<close>

lemma ids_eval:
  "balloonId 1 = ''balloon_0001''" "balloonId 2 = ''balloon_0002''"
  "balloonId 8 = ''balloon_0008''" "balloonId 20 = ''balloon_0020''"
  "decimal 0 = ''0''"
  by code_simp+

lemma ids_limit:
  "balloonId 9007199254740991 = ''balloon_9007199254740991''"
  "balloonId 9007199254740992 = ''balloon_9007199254740992''"
  by (simp_all add: balloonId_def padStart_def numberToString_def decimal.simps digit_char_def)

lemma counter_eval:
  "jsIncrement 1 = 2" "jsIncrement 2 = 3" "jsIncrement 7 = 8" "jsIncrement 8 = 9" "jsIncrement 20 = 21"
  "jsIncrement 9007199254740990 = 9007199254740991"
  "jsIncrement 9007199254740991 = 9007199254740992"
  "jsIncrement 9007199254740992 = 9007199254740992"
  by (simp_all add: jsIncrement_def)

lemmas run_defs = triggerImmediateUpdate_def runHourlyUpdate_def fetchHourData_def
     getCurrentTimestamp_def hourMs_def saveBalloonSnapshot_def getTrackedBalloonsAtTimestamp_def
     trackBalloons_def firstHourStep_def newHourBalloon_def rawCoord_def saveTrackedBalloons_def
     rowOfBalloon_def cleanupStaleData_def utcZone_def Let_def

lemma first_run:
  "triggerImmediateUpdate noAssignment (\<lambda>w. w) feedOne 90000 95000 emptyWorld =
     \<lparr>w_db = \<lparr>balloon_snapshots = [(0, [JArr [JNum (Num 10), JNum (Num 20), JNum (Num 15)]])],
             tracked_balloons = [((''balloon_0001'', 0),
               \<lparr>row_lat = 10, row_lon = 20, row_alt = 15, row_speed_kmh = None,
                row_direction_deg = None, row_status = New, row_hour_offset = 0\<rparr>)]\<rparr>,
      w_timeZone = utcZone,
      w_nextId = 2, w_processedDataCache = [], w_cacheTimestamp = None, w_cacheCreatedAt = 0,
      w_balloonHistory = [\<lparr>id_b = ''balloon_0001'', latitude = 10, longitude = 20,
         altitude_km = 15, timestamp = 0, hour_offset = 0, speed_kmh = None,
         direction_deg = None, confidence = 1, status = New\<rparr>],
      w_lastUpdateTimestamp = Some 0, w_autoUpdateEnabled = True\<rparr>"
  by (simp add: run_defs emptyWorld_def feedOne_def ids_eval counter_eval)

text \<open>
  C2 (the code at the failing input). The trigger runs twice in the same hour on an empty
  database, with the same upstream answer of one valid observation. After the first run
  the tracked table holds the row of \<open>balloon_0001\<close>; the second run tracks the same
  observation again, issues \<open>balloon_0002\<close> for it and adds a second row for the same
  hour. The database is not left as it was.
\<close>

theorem second_run_adds_rows:
  "map fst (tracked_balloons (w_db (triggerImmediateUpdate noAssignment (\<lambda>w. w) feedOne 90000 95000 emptyWorld)))
     = [(''balloon_0001'', 0)] \<and>
   map fst (tracked_balloons (w_db (triggerImmediateUpdate noAssignment (\<lambda>w. w) feedOne 100000 105000
      (triggerImmediateUpdate noAssignment (\<lambda>w. w) feedOne 90000 95000 emptyWorld))))
     = [(''balloon_0001'', 0), (''balloon_0002'', 0)] \<and>
   getCurrentTimestamp 90000 = getCurrentTimestamp 100000"
  unfolding first_run
  by (simp add: run_defs feedOne_def ids_eval counter_eval)

lemma distinct_balloonIds: "distinct ks \<Longrightarrow> distinct (map balloonId ks)"
  by (auto simp: distinct_map inj_on_def dest: balloonId_inj)

lemma disjoint_calls:
  assumes lo: "- (2 ^ 53) \<le> w_nextId w"
    and hi: "w_nextId (snd (trackBalloons munkres cd pd h (snd (trackBalloons munkres cd pd h w)))) < 2 ^ 53"
  shows "set (newIds (fst (trackBalloons munkres cd pd h w))) \<inter>
         set (newIds (fst (trackBalloons munkres cd pd h (snd (trackBalloons munkres cd pd h w))))) = {}"
proof -
  let ?ops = "[Track cd pd h, Track cd pd h]"
  let ?r1 = "trackBalloons munkres cd pd h w"
  let ?r2 = "trackBalloons munkres cd pd h (snd ?r1)"
  have run: "runOps munkres ?ops w = (newIds (fst ?r1) @ newIds (fst ?r2), snd ?r2)"
    by (simp add: Let_def)
  have "w_nextId (snd (runOps munkres ?ops w)) < 2 ^ 53" using hi by (simp only: run snd_conv)
  from runOps_ids[OF lo this] obtain ks where
    ks: "fst (runOps munkres ?ops w) = map balloonId ks" "sorted_wrt (<) ks" by blast
  have "newIds (fst ?r1) @ newIds (fst ?r2) = map balloonId ks"
    using ks(1) unfolding run by simp
  moreover have "distinct (map balloonId ks)"
    using ks(2) by (intro distinct_balloonIds) (simp add: strict_sorted_iff)
  ultimately have "distinct (newIds (fst ?r1) @ newIds (fst ?r2))" by simp
  then show ?thesis by simp
qed

text \<open>
  C7 (as the code has it). \<open>trackBalloons\<close> writes its result to the database whenever
  there are previous balloons (with none it returns without writing). It advances the id
  counter once for every new balloon in its result, and the ids of those are made from the
  counter values it passes. Its result depends on its arguments and the counter only, and
  the matched rows not even on the counter: two calls with identical arguments return the
  same matched rows. While the counter stays below \<open>2 ^ 53\<close> (and starts at no less
  than \<open>- 2 ^ 53\<close>), where a double holds every integer, the new ids of the second of
  two such calls all differ from the new ids of the first.
\<close>

theorem trackBalloons_effects_thm:
  "w_db (snd (trackBalloons munkres currentData previousData h w)) =
     (if previousData = [] then w_db w
      else saveTrackedBalloons (fst (trackBalloons munkres currentData previousData h w)) (w_db w)) \<and>
   w_nextId (snd (trackBalloons munkres currentData previousData h w)) =
     (jsIncrement ^^ length (newIds (fst (trackBalloons munkres currentData previousData h w)))) (w_nextId w) \<and>
   newIds (fst (trackBalloons munkres currentData previousData h w)) =
     map balloonId (counterValues (w_nextId w)
       (length (newIds (fst (trackBalloons munkres currentData previousData h w))))) \<and>
   fst (trackBalloons munkres currentData previousData h w) =
     fst (trackBalloons munkres currentData previousData h (v\<lparr>w_nextId := w_nextId w\<rparr>)) \<and>
   filter (\<lambda>b. status b = Active) (fst (trackBalloons munkres currentData previousData h w)) =
     filter (\<lambda>b. status b = Active) (fst (trackBalloons munkres currentData previousData h v)) \<and>
   (- (2 ^ 53) \<le> w_nextId w \<and>
    w_nextId (snd (trackBalloons munkres currentData previousData h
                     (snd (trackBalloons munkres currentData previousData h w)))) < 2 ^ 53 \<longrightarrow>
      set (newIds (fst (trackBalloons munkres currentData previousData h w))) \<inter>
      set (newIds (fst (trackBalloons munkres currentData previousData h
                          (snd (trackBalloons munkres currentData previousData h w))))) = {})"
proof (intro conjI impI)
  show "w_db (snd (trackBalloons munkres currentData previousData h w)) =
     (if previousData = [] then w_db w
      else saveTrackedBalloons (fst (trackBalloons munkres currentData previousData h w)) (w_db w))"
    by (rule trackBalloons_effects)
  show "w_nextId (snd (trackBalloons munkres currentData previousData h w)) =
     (jsIncrement ^^ length (newIds (fst (trackBalloons munkres currentData previousData h w)))) (w_nextId w)"
    by (rule trackBalloons_counter)
  show "newIds (fst (trackBalloons munkres currentData previousData h w)) =
     map balloonId (counterValues (w_nextId w)
       (length (newIds (fst (trackBalloons munkres currentData previousData h w)))))"
    by (rule trackBalloons_new_ids)
  show "fst (trackBalloons munkres currentData previousData h w) =
     fst (trackBalloons munkres currentData previousData h (v\<lparr>w_nextId := w_nextId w\<rparr>))"
    by (rule trackBalloons_reads_counter)
  show "filter (\<lambda>b. status b = Active) (fst (trackBalloons munkres currentData previousData h w)) =
     filter (\<lambda>b. status b = Active) (fst (trackBalloons munkres currentData previousData h v))"
    by (simp only: trackBalloons_matched)
next
  assume "- (2 ^ 53) \<le> w_nextId w \<and>
    w_nextId (snd (trackBalloons munkres currentData previousData h
                     (snd (trackBalloons munkres currentData previousData h w)))) < 2 ^ 53"
  then show "set (newIds (fst (trackBalloons munkres currentData previousData h w))) \<inter>
      set (newIds (fst (trackBalloons munkres currentData previousData h
                          (snd (trackBalloons munkres currentData previousData h w))))) = {}"
    by (intro disjoint_calls) simp_all
qed

text \<open>
  The statement for one observation and no previous balloons, on a process that has just
  started: the counter is 1, the first call issues \<open>balloon_0001\<close> and the second call
  issues another id.
\<close>

theorem trackBalloons_effects_thm_witness:
  "- (2 ^ 53) \<le> w_nextId emptyWorld \<and>
   w_nextId (snd (trackBalloons noAssignment [oneObs] [] Map.empty
                    (snd (trackBalloons noAssignment [oneObs] [] Map.empty emptyWorld)))) = 3 \<and>
   newIds (fst (trackBalloons noAssignment [oneObs] [] Map.empty emptyWorld)) = [''balloon_0001''] \<and>
   ''balloon_0001'' \<notin> set (newIds (fst (trackBalloons noAssignment [oneObs] [] Map.empty
                                 (snd (trackBalloons noAssignment [oneObs] [] Map.empty emptyWorld)))))"
proof -
  have lo: "- (2 ^ 53) \<le> w_nextId emptyWorld"
    by (simp add: emptyWorld_def)
  have after: "w_nextId (snd (trackBalloons noAssignment [oneObs] [] Map.empty
                    (snd (trackBalloons noAssignment [oneObs] [] Map.empty emptyWorld)))) = 3"
    by (simp add: trackBalloons_def firstHourStep_def emptyWorld_def counter_eval)
  have first: "newIds (fst (trackBalloons noAssignment [oneObs] [] Map.empty emptyWorld)) = [''balloon_0001'']"
    by (simp add: newIds_def trackBalloons_def firstHourStep_def emptyWorld_def ids_eval)
  have "set (newIds (fst (trackBalloons noAssignment [oneObs] [] Map.empty emptyWorld))) \<inter>
        set (newIds (fst (trackBalloons noAssignment [oneObs] [] Map.empty
                            (snd (trackBalloons noAssignment [oneObs] [] Map.empty emptyWorld))))) = {}"
    using trackBalloons_effects_thm[of noAssignment "[oneObs]" "[]" Map.empty emptyWorld] lo after
    by simp
  then show ?thesis using lo after first by simp
qed

text \<open>
  C7 as stated fails. With a previous balloon too far away to match, \<open>trackBalloons\<close>
  issues a new id and writes the row: the database after the call differs from the one
  before. And a second call with the same arguments returns another id than the first.
\<close>

theorem trackBalloons_not_pure:
  "w_db (snd (trackBalloons noAssignment [pointAt ''temp_0_0'' 0 0 15 3600000]
            [pointAt ''balloon_0007'' 50 50 15 0] Map.empty emptyWorld)) \<noteq> w_db emptyWorld \<and>
   fst (trackBalloons noAssignment [pointAt ''temp_0_0'' 0 0 15 3600000] [] Map.empty
          (snd (trackBalloons noAssignment [pointAt ''temp_0_0'' 0 0 15 3600000] [] Map.empty emptyWorld)))
     \<noteq> fst (trackBalloons noAssignment [pointAt ''temp_0_0'' 0 0 15 3600000] [] Map.empty emptyWorld)"
  by (simp add: trackBalloons_def firstHourStep_def matchPhases_def candidatesOf_def treeSearch_def
    searchRadius_def MAX_DISTANCE_KM_PER_HOUR_def pointAt_def List.map_filter_def greedyStep_def
    hungarianPhase_def insertionOrder_def assignNewStep_def emptyWorld_def saveTrackedBalloons_def
    rowOfBalloon_def Let_def ids_eval counter_eval)

subsection \<open>Ids between a start and a reset\<close>

text \<open>
  C8 (as the code has it). At startup \<open>initialize\<close> sets the counter to one more than the
  largest numeric suffix that the database reports. From there on, as long as the tracker
  is not reset and the counter stays below \<open>2 ^ 53\<close> (and the largest suffix is no less than
  \<open>- 2 ^ 53\<close>), where a double holds every integer, the ids issued by any sequence of calls
  of \<open>trackBalloons\<close>, with whatever else the process does in between, are pairwise
  different, and none of them is the id of a row that was in the database at startup.
\<close>

theorem ids_fresh_between_resets:
  assumes lo: "- (2 ^ 53) \<le> getMaxBalloonId (w_db w)"
    and hi: "counterAfter munkres ops (initialize w) < 2 ^ 53"
  shows "w_nextId (initialize w) = getMaxBalloonId (w_db w) + 1 \<and>
     distinct (issuedBy munkres ops (initialize w)) \<and>
     set (issuedBy munkres ops (initialize w)) \<inter> set (storedIds (w_db w)) = {}"
proof -
  let ?m = "getMaxBalloonId (w_db w)"
  let ?n = "w_nextId (initialize w)"
  let ?c = "w_nextId (snd (runOps munkres ops (initialize w)))"
  let ?ids = "issuedBy munkres ops (initialize w)"
  have c: "?c < 2 ^ 53" using hi by (simp add: counterAfter_def)
  have "?m \<le> ?n" using jsIncrement_ge[of ?m] by (simp add: initialize_def)
  moreover have "?n \<le> ?c" by (rule runOps_counter_mono)
  ultimately have m: "?m < 2 ^ 53" using c by linarith
  have n: "?n = ?m + 1" using jsIncrement_exact[OF lo m] by (simp add: initialize_def)
  have nlo: "- (2 ^ 53) \<le> ?n" using lo n by simp
  obtain ks where ks: "?ids = map balloonId ks" "sorted_wrt (<) ks"
      "\<forall>k \<in> set ks. ?n \<le> k \<and> k < ?c"
    using runOps_ids[OF nlo c] unfolding issuedBy_def by blast
  have d: "distinct ?ids" using ks(1,2) distinct_balloonIds[of ks] by (simp add: strict_sorted_iff)
  have fresh: "set ?ids \<inter> set (storedIds (w_db w)) = {}"
  proof (rule ccontr)
    assume "set ?ids \<inter> set (storedIds (w_db w)) \<noteq> {}"
    then obtain s where s1: "s \<in> set ?ids" and s2: "s \<in> set (storedIds (w_db w))" by blast
    from s1 ks(1) obtain k where kin: "k \<in> set ks" and sk: "s = balloonId k" by auto
    then have k: "?n \<le> k" "k < ?c" using ks(3) by simp_all
    from s2 obtain r where r: "r \<in> set (tracked_balloons (w_db w))" and "fst (fst r) = s"
      by (auto simp: storedIds_def)
    then have eq: "fst (fst r) = balloonId k" using sk by simp
    have k63: "- (2 ^ 63) \<le> k" "k < 2 ^ 63" using k nlo c by simp_all
    from stored_id_le_max[OF r eq k63 lo m] k n show False by simp
  qed
  show ?thesis using n d fresh by simp
qed

lemma getMaxBalloonId_storeSeven: "getMaxBalloonId (w_db storeSeven) = 7"
  unfolding getMaxBalloonId_def storeSeven_def storeOf_def by code_simp

text \<open>
  The floor that the database reports for an id written in capitals and for an id with a
  sign, and the id made from a negative counter.
\<close>

lemma floor_of_foreign_ids:
  "getMaxBalloonId (w_db (storeOf ''BALLOON_0042'')) = 42"
  "getMaxBalloonId (w_db (storeOf ''balloon_-5'')) = - 5"
  "w_nextId (initialize (storeOf ''balloon_-5'')) = - 4"
  "balloonId (- 4) = ''balloon_00-4''"
  unfolding getMaxBalloonId_def initialize_def storeOf_def by code_simp+

lemma initialize_storeSeven: "initialize storeSeven = storeSeven\<lparr>w_nextId := 8\<rparr>"
  by (simp add: initialize_def getMaxBalloonId_storeSeven counter_eval)

lemma run_storeSeven:
  "issuedBy noAssignment
     [firstHourCall, Other (\<lambda>w. w\<lparr>w_db := clearAllData (w_db w), w_nextId := 20\<rparr>), firstHourCall]
     (initialize storeSeven) = [''balloon_0008'', ''balloon_0020'']"
  "counterAfter noAssignment
     [firstHourCall, Other (\<lambda>w. w\<lparr>w_db := clearAllData (w_db w), w_nextId := 20\<rparr>), firstHourCall]
     (initialize storeSeven) = 21"
  unfolding initialize_storeSeven issuedBy_def counterAfter_def
  by (simp_all add: firstHourCall_def newIds_def trackBalloons_def firstHourStep_def Let_def
      ids_eval counter_eval)

text \<open>
  The statement for a database that holds \<open>balloon_0007\<close>: the counter starts at 8; a call
  of the tracker, then a step that empties the database and raises the counter to 20, then
  another call issue \<open>balloon_0008\<close> and \<open>balloon_0020\<close>, and the counter ends at 21.
\<close>

theorem ids_fresh_between_resets_witness:
  "- (2 ^ 53) \<le> getMaxBalloonId (w_db storeSeven) \<and>
   counterAfter noAssignment
     [firstHourCall, Other (\<lambda>w. w\<lparr>w_db := clearAllData (w_db w), w_nextId := 20\<rparr>), firstHourCall]
     (initialize storeSeven) = 21 \<and>
   w_nextId (initialize storeSeven) = 8 \<and>
   issuedBy noAssignment
     [firstHourCall, Other (\<lambda>w. w\<lparr>w_db := clearAllData (w_db w), w_nextId := 20\<rparr>), firstHourCall]
     (initialize storeSeven) = [''balloon_0008'', ''balloon_0020''] \<and>
   set [''balloon_0008'', ''balloon_0020''] \<inter> set (storedIds (w_db storeSeven)) = {}"
proof -
  let ?ops = "[firstHourCall, Other (\<lambda>w. w\<lparr>w_db := clearAllData (w_db w), w_nextId := 20\<rparr>), firstHourCall]"
  have lo: "- (2 ^ 53) \<le> getMaxBalloonId (w_db storeSeven)"
    by (simp add: getMaxBalloonId_storeSeven)
  have hi: "counterAfter noAssignment ?ops (initialize storeSeven) < 2 ^ 53"
    by (simp add: run_storeSeven)
  from ids_fresh_between_resets[OF lo hi]
  have "w_nextId (initialize storeSeven) = getMaxBalloonId (w_db storeSeven) + 1"
    and "set (issuedBy noAssignment ?ops (initialize storeSeven)) \<inter>
         set (storedIds (w_db storeSeven)) = {}"
    by blast+
  then show ?thesis using lo
    by (simp add: getMaxBalloonId_storeSeven run_storeSeven)
qed

lemma getMaxBalloonId_storeNearLimit: "getMaxBalloonId (w_db storeNearLimit) = 9007199254740990"
  by (simp add: getMaxBalloonId_def storeNearLimit_def storeOf_def likeBalloon_def asciiLower_def
      castInteger_def sqlSpace_def digit_value_def toDouble_def)

lemma initialize_storeNearLimit:
  "initialize storeNearLimit = storeNearLimit\<lparr>w_nextId := 9007199254740991\<rparr>"
  by (simp add: initialize_def getMaxBalloonId_storeNearLimit counter_eval)

text \<open>
  C8 as stated fails in two ways. Across a rebuild: \<open>resetState\<close> puts the counter back to
  1, and the next call issues \<open>balloon_0001\<close> a second time. And without any reset where
  the doubles no longer hold every integer: started on a database whose largest id is
  \<open>balloon_9007199254740990\<close>, three calls issue \<open>balloon_9007199254740991\<close> and then
  twice \<open>balloon_9007199254740992\<close>, because at \<open>2 ^ 53 = 9007199254740992\<close> the counter
  no longer advances.
\<close>

theorem ids_reissued_after_reset:
  "newIds (fst (trackBalloons noAssignment [pointAt ''temp_0_0'' 0 0 15 0] [] Map.empty emptyWorld))
      = [''balloon_0001''] \<and>
   newIds (fst (trackBalloons noAssignment [pointAt ''temp_0_0'' 0 0 15 3600000] [] Map.empty
      (resetState (snd (trackBalloons noAssignment [pointAt ''temp_0_0'' 0 0 15 0] [] Map.empty emptyWorld)))))
      = [''balloon_0001''] \<and>
   issuedBy noAssignment [firstHourCall, firstHourCall, firstHourCall] (initialize storeNearLimit)
      = [''balloon_9007199254740991'', ''balloon_9007199254740992'', ''balloon_9007199254740992'']"
  unfolding initialize_storeNearLimit issuedBy_def
  by (simp add: newIds_def trackBalloons_def firstHourStep_def firstHourCall_def pointAt_def
      emptyWorld_def resetState_def Let_def ids_eval ids_limit counter_eval)

subsection \<open>The rolling window\<close>

text \<open>
  The cutoff is the clock of the cleanup minus 24 hours, moved by the difference of the two
  offsets of the zone; on a host that runs on UTC it is the clock minus 24 hours.
\<close>

lemma cleanup_cutoff_zone:
  "cleanupStaleData tz now db =
     (let cutoff = now - 24 * hourMs +
                   (tz_ofInstant tz now - tz_ofLocal tz (now + tz_ofInstant tz now - 24 * hourMs))
      in db\<lparr>tracked_balloons := filter (\<lambda>r. cutoff \<le> snd (fst r)) (tracked_balloons db),
            balloon_snapshots := filter (\<lambda>r. cutoff \<le> fst r) (balloon_snapshots db)\<rparr>)"
  by (simp add: cleanupStaleData_def Let_def not_less algebra_simps)

lemma cleanup_cutoff_utc:
  "cleanupStaleData utcZone now db =
     db\<lparr>tracked_balloons := filter (\<lambda>r. now - 24 * hourMs \<le> snd (fst r)) (tracked_balloons db),
        balloon_snapshots := filter (\<lambda>r. now - 24 * hourMs \<le> fst r) (balloon_snapshots db)\<rparr>"
  by (simp add: cleanupStaleData_def utcZone_def Let_def not_less)

lemma tick_before_boundary:
  "map fst (tracked_balloons (w_db (runHourlyUpdate noAssignment (\<lambda>w. w) feedOne 86399000 86400000 False
       (initialize storeSeven)))) = [(''balloon_0007'', 0), (''balloon_0008'', 82800000)]"
  unfolding initialize_storeSeven
  by (simp add: run_defs storeSeven_def storeOf_def emptyWorld_def feedOne_def ids_eval counter_eval)

lemma tick_on_boundary:
  "map fst (tracked_balloons (w_db (runHourlyUpdate noAssignment (\<lambda>w. w) feedOne 86400000 86400000 False
       (initialize storeSeven)))) = [(''balloon_0007'', 0), (''balloon_0008'', 86400000)]"
  unfolding initialize_storeSeven
  by (simp add: run_defs storeSeven_def storeOf_def emptyWorld_def feedOne_def ids_eval counter_eval)

text \<open>
  C9 (the code at the failing input). The host runs on UTC and the database holds a tracked
  row of hour 0 (00:00 of day one). A cleanup whose clock reads 00:00:00.000 of day two
  keeps that row: alone, at the end of a tick that started at 23:59:59, and at the end of a
  tick that itself started at 00:00:00.000 of day two and then tracked the hour 24. The
  current hour of that clock is hour 24, and hour 24 minus 23 hours is 01:00 of day one,
  later than the row that was kept.
\<close>

theorem cleanup_keeps_24h_row:
  "map fst (tracked_balloons (cleanupStaleData utcZone 86400000 (w_db storeSeven))) = [(''balloon_0007'', 0)] \<and>
   map fst (tracked_balloons (w_db (runHourlyUpdate noAssignment (\<lambda>w. w) feedOne 86399000 86400000 False
       (initialize storeSeven)))) = [(''balloon_0007'', 0), (''balloon_0008'', 82800000)] \<and>
   map fst (tracked_balloons (w_db (runHourlyUpdate noAssignment (\<lambda>w. w) feedOne 86400000 86400000 False
       (initialize storeSeven)))) = [(''balloon_0007'', 0), (''balloon_0008'', 86400000)] \<and>
   w_timeZone (initialize storeSeven) = utcZone \<and>
   getCurrentTimestamp 86400000 = 86400000 \<and>
   getCurrentTimestamp 86400000 - 23 * hourMs = 3600000"
proof -
  have a: "map fst (tracked_balloons (cleanupStaleData utcZone 86400000 (w_db storeSeven))) = [(''balloon_0007'', 0)]"
    by (simp add: cleanup_cutoff_utc storeSeven_def storeOf_def hourMs_def)
  have b: "getCurrentTimestamp 86400000 = 86400000" "getCurrentTimestamp 86400000 - 23 * hourMs = 3600000"
    by (simp_all add: getCurrentTimestamp_def hourMs_def)
  have c: "w_timeZone (initialize storeSeven) = utcZone"
    by (simp add: initialize_def storeSeven_def storeOf_def emptyWorld_def)
  show ?thesis using a b c tick_before_boundary tick_on_boundary by blast
qed

subsection \<open>The predictor and value scoring\<close>

lemma calculateDistance_same: "calculateDistance lat lon lat lon = 0"
  by (simp add: calculateDistance_def toRadians_def atan2_def)

lemma sum_list_zero: "list_all (\<lambda>x. f x = (0::real)) xs \<Longrightarrow> sum_list (map f xs) = 0"
  by (induction xs) auto

text \<open>The displacement of the code is the formula of the specification.\<close>

lemma calculateNewPosition_spec:
  "calculateNewPosition lat lon displacement_km bearing_deg = spec_forward lat lon displacement_km bearing_deg"
  by (simp add: calculateNewPosition_def spec_forward_def toRadians_def toDegrees_def
      EARTH_RADIUS_KM_def Let_def)

lemma atan2_sin_cos:
  assumes "- (pi / 2) < t" "t < pi / 2"
  shows "atan2 (sin t) (cos t) = t"
proof -
  have c: "cos t > 0" using assms by (simp add: cos_gt_zero_pi)
  have "arctan (sin t / cos t) = t"
    using arctan_tan[OF assms] by (simp add: tan_def)
  then show ?thesis using c by (simp add: atan2_def)
qed

lemma atan2_zero: "0 \<le> x \<Longrightarrow> atan2 0 x = 0"
  by (simp add: atan2_def)

text \<open>A displacement by 0 km leaves a position where it is.\<close>

lemma spec_forward_rest:
  assumes "- 90 \<le> lat" "lat \<le> 90"
  shows "spec_forward lat lon 0 bearing = (lat, lon)"
proof -
  have "- 90 * pi \<le> lat * pi" "lat * pi \<le> 90 * pi"
    using assms by (intro mult_right_mono; simp)+
  then have r: "- (pi / 2) \<le> lat * pi / 180" "lat * pi / 180 \<le> pi / 2"
    by simp_all
  have a: "arcsin (sin (lat * pi / 180)) = lat * pi / 180"
    by (rule arcsin_sin[OF r])
  have "0 \<le> cos (lat * pi / 180) * cos (lat * pi / 180)" by simp
  moreover have "sin (lat * pi / 180) * sin (lat * pi / 180) +
                 cos (lat * pi / 180) * cos (lat * pi / 180) = 1"
    using sin_cos_squared_add[of "lat * pi / 180"] by (simp add: power2_eq_square)
  ultimately have "sin (lat * pi / 180) * sin (lat * pi / 180) \<le> 1" by linarith
  then have z: "atan2 0 (1 - sin (lat * pi / 180) * sin (lat * pi / 180)) = 0"
    by (intro atan2_zero) simp
  show ?thesis
    by (simp add: spec_forward_def Let_def a z)
qed

lemma hour_arc: "- (pi / 2) < (100 / 6371 :: real)" "(100 / 6371 :: real) < pi / 2"
  using pi_ge_two by simp_all

text \<open>From a point on the equator, 100 km due east.\<close>

lemma spec_forward_east:
  "spec_forward 0 lon 100 90 = (0, lon + 100 / 6371 * (180 / pi))"
proof -
  have q: "90 * pi / 180 = pi / 2" by simp
  show ?thesis
    unfolding spec_forward_def Let_def q
    using atan2_sin_cos[OF hour_arc] by (simp add: field_simps)
qed

lemma calculateNewPosition_east:
  "calculateNewPosition 0 0 100 90 = (0, toDegrees (100 / EARTH_RADIUS_KM))"
  unfolding calculateNewPosition_spec spec_forward_east
  by (simp add: toDegrees_def EARTH_RADIUS_KM_def)

text \<open>The one-hour persistence prediction of the code lands where the formula puts the next position.\<close>

lemma persistence_step_coincides:
  assumes "spec_persistence_step p q"
  shows "pp_latitude (predictByPersistenceSync p hist 1) = latitude q \<and>
         pp_longitude (predictByPersistenceSync p hist 1) = longitude q"
proof -
  from assms obtain speed heading where v: "speed_kmh p = Some speed" "direction_deg p = Some heading"
    and lat: "- 90 \<le> latitude p" "latitude p \<le> 90"
    and q: "(latitude q, longitude q) = spec_forward (latitude p) (longitude p) (speed * 1) heading"
    by (auto simp: spec_persistence_step_def split: option.splits)
  show ?thesis
  proof (cases "speed = 0")
    case True
    then have "(latitude q, longitude q) = (latitude p, longitude p)"
      using q spec_forward_rest[OF lat] by simp
    then show ?thesis using True v by (simp add: predictByPersistenceSync_def orZero_def)
  next
    case False
    then show ?thesis
      using v q[symmetric]
      by (simp add: predictByPersistenceSync_def orZero_def Let_def calculateNewPosition_spec)
  qed
qed

lemma trajectory_steps:
  "spec_persistence_trajectory xs \<Longrightarrow> Suc i < length xs \<Longrightarrow>
   spec_persistence_step (xs ! i) (xs ! Suc i)"
proof (induction xs arbitrary: i rule: spec_persistence_trajectory.induct)
  case (1 p q rest)
  then show ?case by (cases i) simp_all
qed simp_all

lemma trajectory_sorted: "spec_persistence_trajectory xs \<Longrightarrow> sorted (map timestamp xs)"
proof (induction xs rule: spec_persistence_trajectory.induct)
  case (1 p q rest)
  then have "timestamp p \<le> timestamp q"
    by (auto simp: spec_persistence_step_def hourMs_def split: option.splits)
  then show ?case using 1 by (auto intro: order_trans)
qed simp_all

text \<open>
  C5. For every trajectory of at least two hourly positions generated by the persistence
  formula of the specification, and every number of hours from 1 on, value scoring with the
  persistence method returns a result: it scores the hours 0 up to the smaller of
  \<open>hours\<close> and the length of the trajectory less one, at every scored hour \<open>i\<close> the
  predicted position is the position \<open>i + 1\<close> of the trajectory, every prediction error
  is 0, and the overall value score is 0. Numbers are reals here: the score is exactly 0,
  where the source computes in doubles.
\<close>

theorem persistence_round_trip:
  assumes len: "2 \<le> length trajectory" and hrs: "1 \<le> hours"
    and gen: "spec_persistence_trajectory trajectory"
  shows "\<exists>res. fst (calculateBalloonValueOptimized http now ident trajectory hours Persistence ww) = Inr res \<and>
           vr_overall_value_score res = 0 \<and>
           list_all (\<lambda>v. vp_prediction_error_km v = 0) (vr_value_over_time res) \<and>
           map vp_hour (vr_value_over_time res) = [0..<nat (min hours (int (length trajectory) - 1))] \<and>
           map (\<lambda>v. (fst (vp_predicted_position v), fst (snd (vp_predicted_position v))))
               (vr_value_over_time res) =
             map (\<lambda>p. (latitude p, longitude p))
               (take (nat (min hours (int (length trajectory) - 1))) (tl trajectory))"
proof -
  define maxHours where "maxHours = min hours (int (length trajectory) - 1)"
  define wm where "wm = fst (getWindAtMultipleLocations http now
      (map (\<lambda>pos. \<lparr>loc_latitude = latitude pos, loc_longitude = longitude pos,
                                 loc_altitude_km = altitude_km pos,
                                 loc_timestamp = Some (timestamp pos)\<rparr>)
                     (take (nat maxHours) trajectory)) ww)"
  define vot where "vot = map (valuePoint Persistence trajectory wm) [0..<nat maxHours]"
  have st: "sort_key timestamp trajectory = trajectory"
    by (rule sort_key_id_if_sorted[OF trajectory_sorted[OF gen]])
  have mh: "1 \<le> maxHours" using len hrs by (simp add: maxHours_def)
  have bound: "nat maxHours \<le> length trajectory - 1" using len by (simp add: maxHours_def)
  have step: "pp_latitude (predictByPersistenceSync (trajectory ! i) hist 1) = latitude (trajectory ! Suc i) \<and>
              pp_longitude (predictByPersistenceSync (trajectory ! i) hist 1) = longitude (trajectory ! Suc i)"
    if "i < nat maxHours" for i hist
  proof -
    have "Suc i < length trajectory" using that bound len by linarith
    then show ?thesis by (intro persistence_step_coincides trajectory_steps[OF gen])
  qed
  have err: "vp_prediction_error_km (valuePoint Persistence trajectory wm i) = 0" if "i < nat maxHours" for i
    using step[OF that] by (simp add: valuePoint_def predictOne_def Let_def calculateDistance_same)
  then have zeros: "list_all (\<lambda>v. vp_prediction_error_km v = 0) vot"
    by (simp add: vot_def list_all_iff)
  have hours_eq: "map vp_hour vot = [0..<nat maxHours]"
    by (simp add: vot_def valuePoint_def Let_def comp_def)
  have coincide: "map (\<lambda>v. (fst (vp_predicted_position v), fst (snd (vp_predicted_position v)))) vot =
      map (\<lambda>p. (latitude p, longitude p)) (take (nat maxHours) (tl trajectory))"
  proof (rule nth_equalityI)
    show "length (map (\<lambda>v. (fst (vp_predicted_position v), fst (snd (vp_predicted_position v)))) vot) =
          length (map (\<lambda>p. (latitude p, longitude p)) (take (nat maxHours) (tl trajectory)))"
      using bound by (simp add: vot_def)
  next
    fix i
    assume "i < length (map (\<lambda>v. (fst (vp_predicted_position v), fst (snd (vp_predicted_position v)))) vot)"
    then have i: "i < nat maxHours" by (simp add: vot_def)
    then have "i < length (tl trajectory)" using bound by simp
    then show "map (\<lambda>v. (fst (vp_predicted_position v), fst (snd (vp_predicted_position v)))) vot ! i =
               map (\<lambda>p. (latitude p, longitude p)) (take (nat maxHours) (tl trajectory)) ! i"
      using i step[OF i] by (simp add: vot_def valuePoint_def predictOne_def Let_def nth_tl)
  qed
  have ne: "length vot > 0" using mh by (simp add: vot_def)
  have sum0: "sum_list (map vp_prediction_error_km vot) = 0"
    by (rule sum_list_zero[OF zeros])
  have small: "\<not> length trajectory < 2" "\<not> maxHours < 1" using len mh by auto
  show ?thesis
    unfolding calculateBalloonValueOptimized_def Let_def st
    unfolding maxHours_def[symmetric]
    unfolding wm_def[symmetric]
    unfolding vot_def[symmetric]
    using small zeros hours_eq sum0 coincide by simp
qed

lemma east_step: "spec_persistence_step (eastPoint k) (eastPoint (Suc k))"
  by (simp add: spec_persistence_step_def eastPoint_def pointAt_def spec_forward_east hourMs_def
      algebra_simps add_divide_distrib)

lemma straightLine_generated: "spec_persistence_trajectory straightLine"
  using east_step[of 0] east_step[of 1] east_step[of 2] east_step[of 3] east_step[of 4]
  by (simp add: straightLine_def eval_nat_numeral)

text \<open>
  The statement at scenario S4, scored over 5 hours: the five predictions lie on the
  equator at 1, 2, 3, 4 and 5 times the arc of 100 km, and the score is 0.
\<close>

theorem persistence_round_trip_witness:
  "2 \<le> length straightLine \<and> spec_persistence_trajectory straightLine \<and>
   (\<exists>res. fst (calculateBalloonValueOptimized offline 0 ''balloon_0001'' straightLine 5 Persistence freshWind)
            = Inr res \<and>
          vr_overall_value_score res = 0 \<and> map vp_hour (vr_value_over_time res) = [0, 1, 2, 3, 4] \<and>
          map (\<lambda>v. (fst (vp_predicted_position v), fst (snd (vp_predicted_position v))))
              (vr_value_over_time res) =
            [(0, 1 * (100 / 6371 * (180 / pi))), (0, 2 * (100 / 6371 * (180 / pi))),
             (0, 3 * (100 / 6371 * (180 / pi))), (0, 4 * (100 / 6371 * (180 / pi))),
             (0, 5 * (100 / 6371 * (180 / pi)))])"
proof -
  have h1: "2 \<le> length straightLine" by (simp add: straightLine_def)
  have h2: "(1::int) \<le> 5" by simp
  have h3: "spec_persistence_trajectory straightLine" by (rule straightLine_generated)
  have n5: "nat (min 5 (int (length straightLine) - 1)) = 5" by (simp add: straightLine_def)
  have u5: "[0..<5] = [0, 1, 2, 3, 4::nat]" by code_simp
  have n: "[0..<nat (min 5 (int (length straightLine) - 1))] = [0, 1, 2, 3, 4]"
    unfolding n5 u5 ..
  have next5: "map (\<lambda>p. (latitude p, longitude p))
                 (take (nat (min 5 (int (length straightLine) - 1))) (tl straightLine)) =
            [(0, 1 * (100 / 6371 * (180 / pi))), (0, 2 * (100 / 6371 * (180 / pi))),
             (0, 3 * (100 / 6371 * (180 / pi))), (0, 4 * (100 / 6371 * (180 / pi))),
             (0, 5 * (100 / 6371 * (180 / pi)))]"
    unfolding n5 by (simp add: straightLine_def eastPoint_def pointAt_def)
  from persistence_round_trip[OF h1 h2 h3, of offline 0 "''balloon_0001''" freshWind]
  obtain res where
    "fst (calculateBalloonValueOptimized offline 0 ''balloon_0001'' straightLine 5 Persistence freshWind)
       = Inr res"
    "vr_overall_value_score res = 0" "map vp_hour (vr_value_over_time res) = [0, 1, 2, 3, 4]"
    "map (\<lambda>v. (fst (vp_predicted_position v), fst (snd (vp_predicted_position v))))
              (vr_value_over_time res) =
            [(0, 1 * (100 / 6371 * (180 / pi))), (0, 2 * (100 / 6371 * (180 / pi))),
             (0, 3 * (100 / 6371 * (180 / pi))), (0, 4 * (100 / 6371 * (180 / pi))),
             (0, 5 * (100 / 6371 * (180 / pi)))]"
    unfolding n next5 by (elim exE conjE)
  then show ?thesis using h1 h3 by (intro conjI exI[of _ res])
qed

lemma upt_1_3: "[1..<Suc 2] = [1, 2]"
  by code_simp

text \<open>
  C6 (the code at the failing input). A two-hour persistence prediction for a balloon that
  moves at 100 km/h: both predicted positions carry the confidence 0.65, because every
  round of the loop predicts one hour ahead of its anchor; the specification's formula
  gives 0.65 for hour 1 and 0.5 for hour 2.
\<close>

theorem persistence_confidence_is_constant:
  "map pp_confidence (bt_predicted_positions (predictTrajectoryWithWindData eastbound [] [] 2 Persistence))
     = [0.65, 0.65] \<and>
   map confidenceAtHour [1, 2] = [0.65, 0.5]"
  unfolding predictTrajectoryWithWindData_def upt_1_3
  by (simp add: predictStep_def predictOne_def Let_def confidenceAtHour_def
     predictByPersistenceSync_def eastbound_def pointAt_def orZero_def)

lemma predictStep_persistence:
  "predictStep Persistence h wm hour acc =
     ((fst acc)\<lparr>latitude := pp_latitude (predictByPersistenceSync (fst acc) h 1),
                 longitude := pp_longitude (predictByPersistenceSync (fst acc) h 1),
                 altitude_km := pp_altitude_km (predictByPersistenceSync (fst acc) h 1)\<rparr>,
      snd acc @ [predictByPersistenceSync (fst acc) h 1])"
  by (simp add: predictStep_def predictOne_def Let_def)

lemma persistence_confidence_value:
  "pp_confidence (predictByPersistenceSync c h 1) = (if orZero (speed_kmh c) = 0 then 0.3 else 0.65)"
  by (simp add: predictByPersistenceSync_def Let_def)

lemma fold_persistence_confidences:
  "map pp_confidence (snd (fold (predictStep Persistence h wm) hs acc)) =
     map pp_confidence (snd acc) @
     replicate (length hs) (if orZero (speed_kmh (fst acc)) = 0 then 0.3 else 0.65)"
proof (induction hs arbitrary: acc)
  case Nil
  then show ?case by simp
next
  case (Cons k hs)
  let ?acc' = "predictStep Persistence h wm k acc"
  have s: "speed_kmh (fst ?acc') = speed_kmh (fst acc)"
    by (simp add: predictStep_persistence)
  have c: "map pp_confidence (snd ?acc') =
      map pp_confidence (snd acc) @ [if orZero (speed_kmh (fst acc)) = 0 then 0.3 else 0.65]"
    by (simp add: predictStep_persistence persistence_confidence_value)
  have "map pp_confidence (snd (fold (predictStep Persistence h wm) (k # hs) acc)) =
        map pp_confidence (snd ?acc') @
        replicate (length hs) (if orZero (speed_kmh (fst ?acc')) = 0 then 0.3 else 0.65)"
    using Cons.IH[of ?acc'] by simp
  then show ?case unfolding s c by (simp add: replicate_append_same)
qed

text \<open>Under persistence every hour of every horizon carries the same confidence.\<close>

lemma persistence_confidences:
  "map pp_confidence
     (bt_predicted_positions (predictTrajectoryWithWindData balloon h wm predictionHours Persistence)) =
   replicate predictionHours (if orZero (speed_kmh balloon) = 0 then 0.3 else 0.65)"
  by (simp add: predictTrajectoryWithWindData_def fold_persistence_confidences)

subsection \<open>The wind batch and the cache\<close>

lemma nearest_level:
  "fold (\<lambda>c prev. if \<bar>c - 1013.25\<bar> < \<bar>prev - 1013.25\<bar> then c else prev)
     [975, 950, 925, 900, 850, 800, 700, 600, 500, 400, 300, 250, 200, 150, 100, 70, 50, 30] (1000::real)
   = 1000"
  by code_simp

lemma altitudeToPressure_sea_level: "altitudeToPressure 0 = 1000"
proof -
  have e: "1013.25 * exp (- 0 / 7.4) = (1013.25::real)" by simp
  show ?thesis
    unfolding altitudeToPressure_def PRESSURE_LEVELS_def Let_def e list.sel
    by (rule nearest_level)
qed

lemma ceiling_small: "\<lceil>1 / 960 :: real\<rceil> = 1"
  by (rule ceiling_unique) simp_all

lemma timeFrame_eval: "timeFrame 90000 (Some 0) (Some 0) = (2, 1)"
  by (simp add: timeFrame_def Let_def ceiling_small)

lemma wind_eval:
  "getWindAtMultipleLocations calm 90000 [seaLevel] ww =
     ([(((False, 0), (False, 0), (False, 0), Some 0),
        \<lparr>wd_latitude = 0, wd_longitude = 0, wd_altitude_km = 0,
           wd_pressure_hpa = 1000, wd_wind_u_ms = 0, wd_wind_v_ms = - 10,
           wd_wind_speed_kmh = 36, wd_wind_direction_deg = 0,
           wd_timestamp = 0\<rparr>)],
      ww\<lparr>ww_trace := ww_trace ww @
         [HttpGet \<lparr>mq_latitude = [(False, 0)], mq_longitude = [(False, 0)],
              mq_pressure = 1000, mq_forecast_days = 1, mq_past_days = 2\<rparr>]\<rparr>)"
  apply (simp add: getWindAtMultipleLocations_def addToGroup_def seaLevel_def altitudeToPressure_sea_level floorHour_def hourMs_def
     fetchGroup_def timeFrame_eval BATCH_SIZE_def Let_def)
  apply (simp add: fetchBatch_def calm_def BATCH_SIZE_def Let_def bindResult_def closestHour_def floorHour_def hourMs_def
     toFixed_def)
  done

lemma cache_hit: "getWindCache 0 0 0 (Some 0) (ww_cache warmWind) = Some (cachedVector, 0)"
  by (simp add: getWindCache_def warmWind_def setWindCache_def cachedVector_def roundTenths_def)

text \<open>
  C4 (the code at the failing input). The cache holds a wind vector under the key of the
  requested location and hour, yet \<open>getWindAtMultipleLocations\<close> sends the request and
  returns the provider's vector (36 km/h), not the cached one (72 km/h). Started on an
  empty cache, it returns a vector after a successful fetch and the cache is still empty.
\<close>

theorem wind_batch_bypasses_cache:
  "getWindCache (loc_latitude seaLevel) (loc_longitude seaLevel) (loc_altitude_km seaLevel)
      (loc_timestamp seaLevel) (ww_cache warmWind) = Some (cachedVector, 0) \<and>
   ww_trace (snd (getWindAtMultipleLocations calm 90000 [seaLevel] warmWind)) =
     [HttpGet \<lparr>mq_latitude = [(False, 0)], mq_longitude = [(False, 0)],
              mq_pressure = 1000, mq_forecast_days = 1, mq_past_days = 2\<rparr>] \<and>
   map (\<lambda>kv. wd_wind_speed_kmh (snd kv)) (fst (getWindAtMultipleLocations calm 90000 [seaLevel] warmWind)) = [36] \<and>
   wd_wind_speed_kmh cachedVector = 72 \<and>
   length (fst (getWindAtMultipleLocations calm 90000 [seaLevel] freshWind)) = 1 \<and>
   ww_cache (snd (getWindAtMultipleLocations calm 90000 [seaLevel] freshWind)) = []"
  unfolding wind_eval
  using cache_hit by (simp add: seaLevel_def warmWind_def freshWind_def cachedVector_def)

text \<open>For every input the batch function leaves the cache table as it was.\<close>

lemma wind_batch_cache_untouched:
  "ww_cache (snd (getWindAtMultipleLocations http now locations ww)) = ww_cache ww"
  by (simp add: getWindAtMultipleLocations_def Let_def)

subsection \<open>A match across the direction gate\<close>

lemma small_angle: "- (pi / 2) < pi / 360" "pi / 360 < pi / 2" "0 < pi / 360" "pi / 360 < pi"
  using pi_gt_zero by simp_all

lemma sqrt_sin: "sqrt (sin (pi / 360) * sin (pi / 360)) = sin (pi / 360)"
proof -
  have "0 \<le> sin (pi / 360)" using small_angle by (intro sin_ge_zero) simp_all
  then show ?thesis by simp
qed

lemma sqrt_cos: "sqrt (1 - sin (pi / 360) * sin (pi / 360)) = cos (pi / 360)"
proof -
  have "0 \<le> cos (pi / 360)" using small_angle by (intro cos_ge_zero) simp_all
  moreover have "1 - sin (pi / 360) * sin (pi / 360) = cos (pi / 360) * cos (pi / 360)"
    using sin_cos_squared_add[of "pi / 360"] by (simp add: power2_eq_square)
  ultimately show ?thesis by simp
qed

lemma abs_sin: "\<bar>sin (pi / 360)\<bar> = sin (pi / 360)"
proof -
  have "0 \<le> sin (pi / 360)" using small_angle by (intro sin_ge_zero) simp_all
  then show ?thesis by simp
qed

lemma one_degree: "calculateDistance (- 1) 0 0 0 = EARTH_RADIUS_KM * (pi / 180)"
  "calculateDistance 0 0 (- 1) 0 = EARTH_RADIUS_KM * (pi / 180)"
  using atan2_sin_cos[OF small_angle(1,2)]
  by (simp_all add: calculateDistance_def toRadians_def Let_def sqrt_sin sqrt_cos abs_sin)

lemma distance_small: "EARTH_RADIUS_KM * (pi / 180) \<le> 600" "0 \<le> EARTH_RADIUS_KM * (pi / 180)"
  using pi_less_4 pi_gt_zero by (simp_all add: EARTH_RADIUS_KM_def)

lemma js_mod_540: "js_mod 540 360 = 180"
  by (simp add: js_mod_def)

lemma heading_south: "calculateVelocity northbound southObs = (EARTH_RADIUS_KM * (pi / 180), 180)"
proof -
  have neg: "sin (pi / 180) > 0" using pi_gt_zero by (intro sin_gt_zero) simp_all
  have a: "atan2 0 (- sin (pi / 180)) = pi" using neg by (simp add: atan2_def)
  show ?thesis
    by (simp add: calculateVelocity_def Let_def northbound_def southObs_def pointAt_def
        one_degree toRadians_def a js_mod_540)
qed

lemma no_velocity: "matchVelocity northbound [] = None"
  by (simp add: matchVelocity_def northbound_def pointAt_def truthy_def)

lemma score_south:
  "\<exists>c. calculateMatchScore southObs northbound [] = Some c \<and> 0 \<le> c \<and> c \<le> 15"
proof -
  let ?d = "EARTH_RADIUS_KM * (pi / 180)"
  let ?c = "(0.15 * min 1 ((?d / TYPICAL_DISTANCE_KM_PER_HOUR) ^ 2)) * 100"
  have lat: "latitude southObs = - 1" "longitude southObs = 0" "latitude northbound = 0"
    "longitude northbound = 0" "altitude_km southObs = 15" "altitude_km northbound = 15"
    by (simp_all add: southObs_def northbound_def pointAt_def)
  have "calculateMatchScore southObs northbound [] = Some ?c"
    unfolding calculateMatchScore_def Let_def no_velocity lat one_degree
    using distance_small
    by (simp add: MAX_DISTANCE_KM_PER_HOUR_def MAX_ALTITUDE_DELTA_KM_def)
  moreover have "0 \<le> ?c" by simp
  moreover have "?c \<le> 15" by simp
  ultimately show ?thesis by blast
qed

lemma near: "treeSearch (longitude southObs - searchRadius) (latitude southObs - searchRadius)
     (longitude southObs + searchRadius) (latitude southObs + searchRadius) [northbound] = [northbound]"
  by (simp add: treeSearch_def searchRadius_def MAX_DISTANCE_KM_PER_HOUR_def southObs_def
      northbound_def pointAt_def)

lemma candidates_south:
  "\<exists>c. candidatesOf [northbound] Map.empty southObs =
         [\<lparr>cm_prevIdx = 0, cm_prev = northbound, cm_cost = c\<rparr>] \<and> 0 \<le> c \<and> c \<le> 15"
proof -
  obtain c where c: "calculateMatchScore southObs northbound [] = Some c" "0 \<le> c" "c \<le> 15"
    using score_south by blast
  have "candidatesOf [northbound] Map.empty southObs =
         [\<lparr>cm_prevIdx = 0, cm_prev = northbound, cm_cost = c\<rparr>]"
    unfolding candidatesOf_def Let_def near
    using c by (simp add: List.map_filter_def MAX_ACCEPTABLE_COST_def prevIndexMap_def)
  then show ?thesis using c by blast
qed

lemma match_south:
  "\<exists>c. fst (trackBalloons munkres [southObs] [northbound] Map.empty w) =
     [southObs\<lparr>id_b := ''balloon_0001'', speed_kmh := Some (EARTH_RADIUS_KM * (pi / 180)),
        direction_deg := Some 180, confidence := max 0.3 (exp (- (c / 100) * 2)), status := Active\<rparr>]"
proof -
  obtain c where c: "candidatesOf [northbound] Map.empty southObs =
         [\<lparr>cm_prevIdx = 0, cm_prev = northbound, cm_cost = c\<rparr>]" "0 \<le> c" "c \<le> 15"
    using candidates_south by blast
  have alt: "altitude_km southObs = 15" "altitude_km northbound = 15" "id_b northbound = ''balloon_0001''"
    by (simp_all add: southObs_def northbound_def pointAt_def)
  have "fst (trackBalloons munkres [southObs] [northbound] Map.empty w) =
     [southObs\<lparr>id_b := ''balloon_0001'', speed_kmh := Some (EARTH_RADIUS_KM * (pi / 180)),
        direction_deg := Some 180, confidence := max 0.3 (exp (- (c / 100) * 2)), status := Active\<rparr>]"
    using c(2,3)
    by (simp add: trackBalloons_def matchPhases_def c(1) greedyStep_def prevIdDemand_def contested_def
        alt GREEDY_ALTITUDE_THRESHOLD_def GREEDY_COST_THRESHOLD_def addMatch_def heading_south
        hungarianPhase_def assignNewStep_def Let_def)
  then show ?thesis by blast
qed

lemma angle_0_180: "angleDifference 0 180 = 180"
  by (simp add: angleDifference_def js_mod_def)

text \<open>
  C1 (the code at the failing input). The previous balloon carries speed 100 km/h and
  heading 0 (due north); the current observation lies one degree due south of it. The
  heading test \<open>prev.speed_kmh && prev.direction_deg\<close> takes the heading 0 for a missing
  velocity, the direction gate is skipped, and the observation is matched: it keeps the id
  of the previous balloon with a heading of 180 degrees, a change of 180 degrees.
\<close>

theorem heading_gate_skipped_for_north:
  "map id_b (fst (trackBalloons noAssignment [southObs] [northbound] Map.empty emptyWorld)) = [''balloon_0001''] \<and>
   map status (fst (trackBalloons noAssignment [southObs] [northbound] Map.empty emptyWorld)) = [Active] \<and>
   map direction_deg (fst (trackBalloons noAssignment [southObs] [northbound] Map.empty emptyWorld)) = [Some 180] \<and>
   id_b northbound = ''balloon_0001'' \<and> speed_kmh northbound = Some 100 \<and>
   direction_deg northbound = Some 0 \<and> angleDifference 0 180 = 180"
proof -
  obtain c where "fst (trackBalloons noAssignment [southObs] [northbound] Map.empty emptyWorld) =
     [southObs\<lparr>id_b := ''balloon_0001'', speed_kmh := Some (EARTH_RADIUS_KM * (pi / 180)),
        direction_deg := Some 180, confidence := max 0.3 (exp (- (c / 100) * 2)), status := Active\<rparr>]"
    using match_south by blast
  then show ?thesis
    by (simp add: angle_0_180 northbound_def pointAt_def)
qed

end
